theory Spec2Isabelle
  imports Main
begin

section \<open>Python values, HTTP and the outside world\<close>

text \<open>
  The module \<^verbatim>\<open>wxdb/cdec.py\<close> moves JSON payloads of the CDEC web service through
  pandas into one table. The values that travel are Python objects as \<^verbatim>\<open>json.loads\<close>
  builds them: \<^verbatim>\<open>None\<close>, booleans, integers, floats, strings, lists and
  dictionaries (the items in insertion order, the keys distinct strings). A finite float
  is the dyadic number \<open>m * 2^e\<close>, written with an odd \<open>m\<close>, or with \<open>m = e = 0\<close>;
  \<^verbatim>\<open>nan\<close> and the two infinities, which \<^verbatim>\<open>json.loads\<close> accepts, are values of their
  own. \<^verbatim>\<open>nan\<close> is also pandas' marker of a missing cell.
\<close>

datatype pyval =
    PyNone
  | NaN
  | PyInf bool
  | PyBool bool
  | PyInt int
  | PyFloat int int
  | PyStr string
  | PyList "pyval list"
  | PyDict "(string \<times> pyval) list"

text \<open>
  Exceptions are values. A \<^verbatim>\<open>KeyError\<close> carries the key, a \<^verbatim>\<open>TypeError\<close> the name of
  the type of the value that could not be subscripted, the others their message.
\<close>

datatype exn =
    ValueError string
  | KeyError string
  | TypeError string
  | IndexError string
  | InvalidIndexError string
  | ConnectionError string
  | JSONDecodeError string

record request =
  url :: string
  params :: "(string \<times> pyval) list"

record response =
  status_code :: int
  resp_text :: string

text \<open>
  A pandas \<^verbatim>\<open>DataFrame\<close> is its row labels, its column labels, the dtype of each
  column and its cells, read by position (row, then column); a \<^verbatim>\<open>Series\<close> is a name,
  its labels, its dtype and its values. Labels are Python values. Only the cells and
  dtypes at positions below the lengths of the label lists belong to a frame.
\<close>

datatype dtype = Float64 | Int64 | UInt64 | Bool | Str | Object

record frame =
  index :: "pyval list"
  columns :: "pyval list"
  dtypes :: "nat \<Rightarrow> dtype"
  cell :: "nat \<Rightarrow> nat \<Rightarrow> pyval"

record series =
  name :: pyval
  sindex :: "pyval list"
  sdtype :: dtype
  sval :: "nat \<Rightarrow> pyval"

datatype ndframe = DataFrame_obj frame | Series_obj series

text \<open>
  Everything the module does not own is a parameter. \<open>net\<close> is the remote service
  seen through \<^verbatim>\<open>requests\<close>: given the requests issued so far and a new one, it raises
  or answers. \<open>json_loads\<close> is \<^verbatim>\<open>json.loads\<close>. \<open>pd_other\<close> is what the pandas
  constructor does with a Python value of a shape that \<open>DataFrame\<close> below does not
  model itself.

  The dtype rules of pandas, which differ between its versions, are parameters too:
  \<open>pd_infer\<close> is the dtype that pandas infers for a column of Python values,
  \<open>pd_common\<close> the common dtype of several columns, \<open>pd_promote\<close> the dtype that a
  column takes when a missing value is inserted, \<open>pd_cast\<close> the value that a column
  of a dtype stores for a Python value, and \<open>pd_where_None\<close> tells whether
  \<^verbatim>\<open>where(cond, None)\<close> stores \<^verbatim>\<open>None\<close> in a column of a dtype (otherwise the missing
  value stays \<^verbatim>\<open>nan\<close>). Section \<open>The dtype rules of pandas 1.3 to 2\<close> gives the rules
  that the worlds of this theory use.
\<close>

record world =
  net :: "request list \<Rightarrow> request \<Rightarrow> exn + response"
  json_loads :: "string \<Rightarrow> exn + pyval"
  pd_other :: "pyval \<Rightarrow> exn + frame"
  pd_infer :: "pyval list \<Rightarrow> dtype"
  pd_common :: "dtype list \<Rightarrow> dtype"
  pd_promote :: "dtype \<Rightarrow> dtype"
  pd_cast :: "dtype \<Rightarrow> pyval \<Rightarrow> pyval"
  pd_where_None :: "dtype \<Rightarrow> bool"

section \<open>The pandas operations the module calls\<close>

fun find_pos :: "'a list \<Rightarrow> 'a \<Rightarrow> nat option" where
  "find_pos [] y = None"
| "find_pos (x # xs) y = (if x = y then Some 0 else map_option Suc (find_pos xs y))"

definition uniq :: "'a list \<Rightarrow> 'a list" where
  \<comment> \<open>the elements in the order of their first appearance\<close>
  "uniq xs = rev (remdups (rev xs))"

definition range_index :: "nat \<Rightarrow> pyval list" where
  "range_index n = map (\<lambda>i. PyInt (int i)) [0..<n]"

definition column_dtypes :: "frame \<Rightarrow> dtype list" where
  "column_dtypes f = map (dtypes f) [0..<length (columns f)]"

definition empty_frame :: frame where
  "empty_frame = \<lparr>index = [], columns = [], dtypes = (\<lambda>j. Object), cell = (\<lambda>i j. NaN)\<rparr>"

text \<open>
  \<^verbatim>\<open>pd.DataFrame(records)\<close> for a list of dictionaries: one row per dictionary under a
  \<^verbatim>\<open>RangeIndex\<close>, one column per key in the order of first appearance, \<^verbatim>\<open>nan\<close> where
  a dictionary lacks a key. Each column gets the dtype inferred from its values, and
  stores them as that dtype does.
\<close>

definition raw_column :: "(string \<times> pyval) list list \<Rightarrow> string \<Rightarrow> pyval list" where
  "raw_column recs c = map (\<lambda>rec. case map_of rec c of None \<Rightarrow> NaN | Some v \<Rightarrow> v) recs"

definition from_records :: "world \<Rightarrow> (string \<times> pyval) list list \<Rightarrow> frame" where
  "from_records w recs =
     (let cols = uniq (concat (map (map fst) recs))
      in \<lparr>index = range_index (length recs),
          columns = map PyStr cols,
          dtypes = (\<lambda>j. pd_infer w (raw_column recs (cols ! j))),
          cell = (\<lambda>i j. pd_cast w (pd_infer w (raw_column recs (cols ! j)))
                           (raw_column recs (cols ! j) ! i))\<rparr>)"

fun is_dict :: "pyval \<Rightarrow> bool" where
  "is_dict (PyDict d) = True"
| "is_dict v = False"

fun dict_items :: "pyval \<Rightarrow> (string \<times> pyval) list" where
  "dict_items (PyDict d) = d"
| "dict_items v = []"

text \<open>
  \<^verbatim>\<open>pd.DataFrame(data)\<close>. \<^verbatim>\<open>None\<close>, the empty list and the empty dictionary give the
  empty frame, a list of dictionaries gives \<open>from_records\<close>, a scalar raises
  \<^verbatim>\<open>ValueError\<close>. Lists with other elements and non-empty dictionaries are left to
  \<open>pd_other\<close>.
\<close>

definition DataFrame :: "world \<Rightarrow> pyval \<Rightarrow> exn + frame" where
  "DataFrame w data =
     (case data of
        PyNone \<Rightarrow> Inr empty_frame
      | PyList xs \<Rightarrow>
          if list_all is_dict xs then Inr (from_records w (map dict_items xs))
          else pd_other w data
      | PyDict d \<Rightarrow> if d = [] then Inr empty_frame else pd_other w data
      | _ \<Rightarrow> Inl (ValueError ''DataFrame constructor not properly called!''))"

text \<open>\<^verbatim>\<open>data[key]\<close> on a Python value: only a dictionary can be subscripted by a string.\<close>

fun py_type :: "pyval \<Rightarrow> string" where
  "py_type PyNone = ''NoneType''"
| "py_type NaN = ''float''"
| "py_type (PyInf b) = ''float''"
| "py_type (PyBool b) = ''bool''"
| "py_type (PyInt n) = ''int''"
| "py_type (PyFloat m e) = ''float''"
| "py_type (PyStr s) = ''str''"
| "py_type (PyList xs) = ''list''"
| "py_type (PyDict d) = ''dict''"

definition py_getitem :: "pyval \<Rightarrow> string \<Rightarrow> exn + pyval" where
  "py_getitem data k =
     (case data of
        PyDict d \<Rightarrow> (case map_of d k of None \<Rightarrow> Inl (KeyError k) | Some v \<Rightarrow> Inr v)
      | _ \<Rightarrow> Inl (TypeError (py_type data)))"

text \<open>
  \<^verbatim>\<open>d.iloc[0]\<close>: the first row as a Series named by the row's label. The Series has
  the common dtype of the columns and stores the cells as that dtype does.
\<close>

definition iloc0 :: "world \<Rightarrow> frame \<Rightarrow> exn + series" where
  "iloc0 w d =
     (if index d = [] then Inl (IndexError ''single positional indexer is out-of-bounds'')
      else Inr \<lparr>name = index d ! 0, sindex = columns d,
                sdtype = pd_common w (column_dtypes d),
                sval = (\<lambda>j. pd_cast w (pd_common w (column_dtypes d)) (cell d 0 j))\<rparr>)"

text \<open>
  \<^verbatim>\<open>frame[key]\<close>: \<^verbatim>\<open>KeyError\<close> when no column has the label, the column as a Series when
  one has, the sub-frame of all of them when several have.
\<close>

definition positions :: "pyval list \<Rightarrow> pyval \<Rightarrow> nat list" where
  "positions cols c = filter (\<lambda>j. cols ! j = c) [0..<length cols]"

definition getitem :: "frame \<Rightarrow> string \<Rightarrow> exn + ndframe" where
  "getitem f k =
     (case positions (columns f) (PyStr k) of
        [] \<Rightarrow> Inl (KeyError k)
      | [j] \<Rightarrow> Inr (Series_obj \<lparr>name = PyStr k, sindex = index f, sdtype = dtypes f j,
                               sval = (\<lambda>i. cell f i j)\<rparr>)
      | js \<Rightarrow> Inr (DataFrame_obj
                 \<lparr>index = index f, columns = map (\<lambda>j. PyStr k) js,
                  dtypes = (\<lambda>j. dtypes f (js ! j)),
                  cell = (\<lambda>i j. cell f i (js ! j))\<rparr>))"

text \<open>Iterating a Series yields its values, iterating a DataFrame its column labels.\<close>

fun py_iter :: "ndframe \<Rightarrow> pyval list" where
  "py_iter (Series_obj s) = map (sval s) [0..<length (sindex s)]"
| "py_iter (DataFrame_obj f) = columns f"

text \<open>
  \<^verbatim>\<open>pd.concat(objs, axis=1)\<close> puts the objects side by side. The rows are the outer
  join of the objects' labels: when all label lists are equal nothing is re-indexed,
  otherwise the result has the union of the labels in the order of first appearance
  (older versions of pandas sort it; nothing below depends on the order), every object
  is re-indexed to it, and an object with a repeated label cannot be re-indexed.
  Re-indexing an object that lacks a label inserts \<^verbatim>\<open>nan\<close> and promotes the dtype of
  its columns. A Series contributes one column, labelled with its name; unnamed Series
  are numbered. An empty list raises \<^verbatim>\<open>ValueError\<close>.
\<close>

definition all_equal :: "'a list \<Rightarrow> bool" where
  "all_equal xs = (case xs of [] \<Rightarrow> True | x # ys \<Rightarrow> list_all (\<lambda>y. y = x) ys)"

definition combined_index :: "pyval list list \<Rightarrow> exn + pyval list" where
  "combined_index ixs =
     (if all_equal ixs then Inr (case ixs of [] \<Rightarrow> [] | ix # rest \<Rightarrow> ix)
      else if list_all distinct ixs then Inr (uniq (concat ixs))
      else Inl (InvalidIndexError ''Reindexing only valid with uniquely valued Index objects''))"

definition reindexed_dtype :: "world \<Rightarrow> pyval list \<Rightarrow> pyval list \<Rightarrow> dtype \<Rightarrow> dtype" where
  \<comment> \<open>the dtype of a column with labels \<open>old\<close> and dtype \<open>dt\<close> once aligned to \<open>idx\<close>\<close>
  "reindexed_dtype w old idx dt =
     (if list_all (\<lambda>l. l \<in> set old) idx then dt else pd_promote w dt)"

definition reindex :: "world \<Rightarrow> pyval list \<Rightarrow> frame \<Rightarrow> frame" where
  "reindex w idx f =
     (if index f = idx then f
      else \<lparr>index = idx, columns = columns f,
            dtypes = (\<lambda>j. reindexed_dtype w (index f) idx (dtypes f j)),
            cell = (\<lambda>i j. pd_cast w (reindexed_dtype w (index f) idx (dtypes f j))
                             (case find_pos (index f) (idx ! i) of
                                None \<Rightarrow> NaN | Some p \<Rightarrow> cell f p j))\<rparr>)"

definition hjoin :: "frame \<Rightarrow> frame \<Rightarrow> frame" where
  \<comment> \<open>two frames with the same rows, side by side\<close>
  "hjoin f g =
     \<lparr>index = index f, columns = columns f @ columns g,
      dtypes = (\<lambda>j. if j < length (columns f) then dtypes f j
                     else dtypes g (j - length (columns f))),
      cell = (\<lambda>i j. if j < length (columns f) then cell f i j
                      else cell g i (j - length (columns f)))\<rparr>"

definition concat_frames :: "world \<Rightarrow> frame list \<Rightarrow> exn + frame" where
  "concat_frames w fs =
     (case combined_index (map index fs) of
        Inl e \<Rightarrow> Inl e
      | Inr idx \<Rightarrow>
          Inr (foldr (\<lambda>f acc. hjoin (reindex w idx f) acc) fs
                 \<lparr>index = idx, columns = [], dtypes = (\<lambda>j. Object), cell = (\<lambda>i j. NaN)\<rparr>))"

fun is_series :: "ndframe \<Rightarrow> bool" where
  "is_series (Series_obj s) = True"
| "is_series (DataFrame_obj f) = False"

fun to_frame :: "ndframe \<Rightarrow> frame" where
  "to_frame (DataFrame_obj f) = f"
| "to_frame (Series_obj s) =
     \<lparr>index = sindex s, columns = [name s], dtypes = (\<lambda>j. sdtype s),
      cell = (\<lambda>i j. sval s i)\<rparr>"

fun series_names :: "nat \<Rightarrow> ndframe list \<Rightarrow> pyval list" where
  "series_names k [] = []"
| "series_names k (DataFrame_obj f # objs) = columns f @ series_names k objs"
| "series_names k (Series_obj s # objs) =
     (if name s = PyNone then PyInt (int k) # series_names (Suc k) objs
      else name s # series_names k objs)"

definition pd_concat_axis1 :: "world \<Rightarrow> ndframe list \<Rightarrow> exn + frame" where
  "pd_concat_axis1 w objs =
     (if objs = [] then Inl (ValueError ''No objects to concatenate'')
      else case concat_frames w (map to_frame objs) of
             Inl e \<Rightarrow> Inl e
           | Inr f \<Rightarrow> Inr (f\<lparr>columns := series_names 0 objs\<rparr>))"

text \<open>
  \<^verbatim>\<open>frame.T\<close> exchanges rows and columns; every column of the result has the common
  dtype of the columns of the frame.
\<close>

definition transpose_frame :: "world \<Rightarrow> frame \<Rightarrow> frame" where
  "transpose_frame w f =
     \<lparr>index = columns f, columns = index f,
      dtypes = (\<lambda>j. pd_common w (column_dtypes f)),
      cell = (\<lambda>i j. pd_cast w (pd_common w (column_dtypes f)) (cell f j i))\<rparr>"

text \<open>
  \<^verbatim>\<open>frame.reset_index()\<close> moves the row labels into a new first column and numbers the
  rows. The column is called \<^verbatim>\<open>index\<close>, or \<^verbatim>\<open>level_0\<close> when \<^verbatim>\<open>index\<close> is taken; a name
  that is taken cannot be inserted.
\<close>

definition reset_index :: "world \<Rightarrow> frame \<Rightarrow> exn + frame" where
  "reset_index w f =
     (let nm = (if PyStr ''index'' \<in> set (columns f) then PyStr ''level_0'' else PyStr ''index'')
      in if nm \<in> set (columns f) then Inl (ValueError ''cannot insert level_0, already exists'')
         else Inr \<lparr>index = range_index (length (index f)), columns = nm # columns f,
                   dtypes = (\<lambda>j. case j of 0 \<Rightarrow> pd_infer w (index f) | Suc j' \<Rightarrow> dtypes f j'),
                   cell = (\<lambda>i j. case j of
                              0 \<Rightarrow> pd_cast w (pd_infer w (index f)) (index f ! i)
                            | Suc j' \<Rightarrow> cell f i j')\<rparr>)"

text \<open>
  \<^verbatim>\<open>frame[key] = value\<close>. A frame without rows takes over the labels of the first
  non-empty value; after that a Series is aligned to the frame's rows by label. A
  column that exists is overwritten, a new one is appended; the column takes the
  dtype of the value. A frame is accepted as a value only when it has one column. A
  scalar fills the column, with the dtype inferred from it.
\<close>

definition set_column :: "frame \<Rightarrow> pyval \<Rightarrow> dtype \<Rightarrow> (nat \<Rightarrow> pyval) \<Rightarrow> frame" where
  "set_column DF k dt g =
     (if k \<in> set (columns DF)
      then DF\<lparr>dtypes := (\<lambda>j. if columns DF ! j = k then dt else dtypes DF j),
              cell := (\<lambda>i j. if columns DF ! j = k then g i else cell DF i j)\<rparr>
      else DF\<lparr>columns := columns DF @ [k],
              dtypes := (\<lambda>j. if j = length (columns DF) then dt else dtypes DF j),
              cell := (\<lambda>i j. if j = length (columns DF) then g i else cell DF i j)\<rparr>)"

definition grown :: "world \<Rightarrow> frame \<Rightarrow> pyval list \<Rightarrow> frame" where
  \<comment> \<open>a frame without rows takes over the labels \<open>idx\<close>\<close>
  "grown w DF idx =
     (if index DF = [] \<and> idx \<noteq> []
      then \<lparr>index = idx, columns = columns DF,
            dtypes = (\<lambda>j. pd_promote w (dtypes DF j)), cell = (\<lambda>i j. NaN)\<rparr>
      else DF)"

definition setitem_series :: "world \<Rightarrow> frame \<Rightarrow> string \<Rightarrow> series \<Rightarrow> exn + frame" where
  "setitem_series w DF k s =
     (let DF' = grown w DF (sindex s)
      in if sindex s = index DF' then Inr (set_column DF' (PyStr k) (sdtype s) (sval s))
         else if distinct (sindex s)
         then Inr (set_column DF' (PyStr k)
                     (reindexed_dtype w (sindex s) (index DF') (sdtype s))
                     (\<lambda>i. pd_cast w (reindexed_dtype w (sindex s) (index DF') (sdtype s))
                            (case find_pos (sindex s) (index DF' ! i) of
                               None \<Rightarrow> NaN | Some p \<Rightarrow> sval s p)))
         else Inl (ValueError ''cannot reindex on an axis with duplicate labels''))"

definition setitem :: "world \<Rightarrow> frame \<Rightarrow> string \<Rightarrow> ndframe \<Rightarrow> exn + frame" where
  "setitem w DF k v =
     (case v of
        Series_obj s \<Rightarrow> setitem_series w DF k s
      | DataFrame_obj f \<Rightarrow>
          if length (columns f) = 1
          then setitem_series w DF k
                 \<lparr>name = columns f ! 0, sindex = index f, sdtype = dtypes f 0,
                  sval = (\<lambda>i. cell f i 0)\<rparr>
          else Inl (ValueError ''Cannot set a DataFrame with multiple columns to the single column''))"

definition setitem_scalar :: "world \<Rightarrow> frame \<Rightarrow> string \<Rightarrow> pyval \<Rightarrow> frame" where
  "setitem_scalar w DF k c =
     set_column DF (PyStr k) (pd_infer w [c]) (\<lambda>i. pd_cast w (pd_infer w [c]) c)"

text \<open>
  \<^verbatim>\<open>DF.where(pd.notnull(DF), None)\<close>: a cell that is neither \<^verbatim>\<open>None\<close> nor \<^verbatim>\<open>nan\<close> stays.
  A cell that is \<^verbatim>\<open>None\<close> or \<^verbatim>\<open>nan\<close> becomes \<^verbatim>\<open>None\<close> when the dtype of its column
  stores \<^verbatim>\<open>None\<close>; otherwise pandas takes \<^verbatim>\<open>None\<close> for the missing value of the dtype,
  and the cell is \<^verbatim>\<open>nan\<close>. A column in which \<^verbatim>\<open>None\<close> was stored has dtype \<^verbatim>\<open>object\<close>.
\<close>

definition notnull :: "pyval \<Rightarrow> bool" where
  "notnull v = (v \<noteq> PyNone \<and> v \<noteq> NaN)"

definition where_notnull :: "world \<Rightarrow> frame \<Rightarrow> frame" where
  "where_notnull w DF =
     DF\<lparr>dtypes := (\<lambda>j. if pd_where_None w (dtypes DF j) \<and>
                            list_ex (\<lambda>i. \<not> notnull (cell DF i j)) [0..<length (index DF)]
                         then Object else dtypes DF j),
        cell := (\<lambda>i j. if notnull (cell DF i j) then cell DF i j
                        else if pd_where_None w (dtypes DF j) then PyNone else NaN)\<rparr>"

definition bind_exn :: "exn + 'a \<Rightarrow> ('a \<Rightarrow> exn + 'b) \<Rightarrow> exn + 'b" where
  \<comment> \<open>sequencing: the first exception ends the computation\<close>
  "bind_exn m f = (case m of Inl e \<Rightarrow> Inl e | Inr x \<Rightarrow> f x)"

section \<open>The dtype rules of pandas 1.3 to 2\<close>

text \<open>
  The rules as pandas has them from version 1.3 up to, and not including, version 3,
  for the dtypes that a JSON payload can give: \<^verbatim>\<open>bool\<close>, \<^verbatim>\<open>int64\<close>, \<^verbatim>\<open>uint64\<close>,
  \<^verbatim>\<open>float64\<close> and \<^verbatim>\<open>object\<close>. (Before 1.3 \<^verbatim>\<open>where(cond, None)\<close> stored \<^verbatim>\<open>None\<close> in
  every column; from 3 on strings have a dtype of their own, \<open>Str\<close>.)

  A \<^verbatim>\<open>float64\<close> column stores an integer as the nearest float, ties to even; the
  integers of an \<^verbatim>\<open>int64\<close> or \<^verbatim>\<open>uint64\<close> column are below \<open>2^64\<close> in size, so the
  conversion does not overflow.
\<close>

function normal_float :: "int \<Rightarrow> int \<Rightarrow> pyval" where
  "normal_float m e =
     (if m = 0 then PyFloat 0 0
      else if even m then normal_float (m div 2) (e + 1)
      else PyFloat m e)"
  by pat_completeness auto
termination
  by (relation "measure (\<lambda>(m, e). nat \<bar>m\<bar>)") auto

declare normal_float.simps [simp del]

function bit_length :: "int \<Rightarrow> nat" where
  "bit_length a = (if a \<le> 0 then 0 else Suc (bit_length (a div 2)))"
  by pat_completeness auto
termination
  by (relation "measure nat") auto

declare bit_length.simps [simp del]

definition float_of_int :: "int \<Rightarrow> pyval" where
  "float_of_int n =
     (if \<bar>n\<bar> < 2 ^ 53 then normal_float n 0
      else let s = bit_length \<bar>n\<bar> - 53;
               q = \<bar>n\<bar> div 2 ^ s;
               r = \<bar>n\<bar> mod 2 ^ s;
               h = 2 ^ (s - 1);
               q' = (if h < r \<or> (r = h \<and> odd q) then q + 1 else q)
           in normal_float (sgn n * q') (int s))"

fun is_bool :: "pyval \<Rightarrow> bool" where
  "is_bool (PyBool b) = True"
| "is_bool v = False"

fun int_between :: "int \<Rightarrow> int \<Rightarrow> pyval \<Rightarrow> bool" where
  "int_between lo hi (PyInt n) = (lo \<le> n \<and> n < hi)"
| "int_between lo hi v = False"

fun float_or_null :: "pyval \<Rightarrow> bool" where
  "float_or_null PyNone = True"
| "float_or_null NaN = True"
| "float_or_null (PyInf b) = True"
| "float_or_null (PyFloat m e) = True"
| "float_or_null v = False"

definition pandas_infer :: "pyval list \<Rightarrow> dtype" where
  "pandas_infer vs =
     (if vs = [] then Object
      else if list_all is_bool vs then Bool
      else if list_all (int_between (- (2 ^ 63)) (2 ^ 63)) vs then Int64
      else if list_all (int_between 0 (2 ^ 64)) vs then UInt64
      else if list_all (\<lambda>v. float_or_null v \<or> int_between (- (2 ^ 63)) (2 ^ 64) v) vs \<and>
              list_ex float_or_null vs \<and> list_ex (\<lambda>v. v \<noteq> PyNone) vs \<and>
              (list_all (int_between 0 (2 ^ 64)) (filter (\<lambda>v. \<not> float_or_null v) vs) \<or>
               list_all (int_between (- (2 ^ 63)) (2 ^ 63)) (filter (\<lambda>v. \<not> float_or_null v) vs))
      then Float64
      else Object)"

definition pandas_common :: "dtype list \<Rightarrow> dtype" where
  "pandas_common ds =
     (case ds of
        [] \<Rightarrow> Object
      | d # rest \<Rightarrow>
          if list_all (\<lambda>x. x = d) rest then d
          else if list_all (\<lambda>x. x = Float64 \<or> x = Int64 \<or> x = UInt64) ds then Float64
          else Object)"

fun pandas_promote :: "dtype \<Rightarrow> dtype" where
  "pandas_promote Int64 = Float64"
| "pandas_promote UInt64 = Float64"
| "pandas_promote Bool = Object"
| "pandas_promote dt = dt"

fun to_float64 :: "pyval \<Rightarrow> pyval" where
  "to_float64 (PyInt n) = float_of_int n"
| "to_float64 (PyBool b) = (if b then PyFloat 1 0 else PyFloat 0 0)"
| "to_float64 PyNone = NaN"
| "to_float64 v = v"

definition pandas_cast :: "dtype \<Rightarrow> pyval \<Rightarrow> pyval" where
  "pandas_cast dt v = (if dt = Float64 then to_float64 v else v)"

definition pandas_where_None :: "dtype \<Rightarrow> bool" where
  "pandas_where_None dt = (dt = Object)"

text \<open>
  A world with these rules, in which pandas builds frames from lists of records only.
\<close>

definition pandas_world ::
  "(request list \<Rightarrow> request \<Rightarrow> exn + response) \<Rightarrow> (string \<Rightarrow> exn + pyval) \<Rightarrow> world" where
  "pandas_world n j =
     \<lparr>net = n, json_loads = j,
      pd_other = (\<lambda>v. Inl (ValueError ''not a list of records'')),
      pd_infer = pandas_infer, pd_common = pandas_common, pd_promote = pandas_promote,
      pd_cast = pandas_cast, pd_where_None = pandas_where_None\<rparr>"

section \<open>The class \<^verbatim>\<open>CDEC\<close>\<close>

definition station_info_url :: string where
  "station_info_url = ''http://cdec.water.ca.gov/cdecstation2/CDecServlet/getStationInfo''"

definition all_stations_url :: string where
  "all_stations_url = ''http://cdec.water.ca.gov/cdecstation2/CDecServlet/getAllStations''"

definition conversion :: "(string \<times> string) list" where
  "conversion =
     [(''LATITUDE'', ''latitude''),
      (''STATION_ID'', ''primary_id''),
      (''LONGITUDE'', ''longitude''),
      (''STATION_NAME'', ''station_name''),
      (''ELEVATION'', ''elevation''),
      (''AGENCY_NAME'', ''primary_provider'')]"

subsection \<open>Requests\<close>

text \<open>
  The state that the functions thread is the list of the requests issued so far, oldest
  first. \<^verbatim>\<open>requests.get\<close> issues one request and raises what the network raises.
  \<^verbatim>\<open>grequests.get\<close> only builds a request; \<^verbatim>\<open>grequests.map(r, size=1)\<close> issues the
  requests of \<open>r\<close> one at a time in the order of the list and returns one entry per
  request: the response, or \<^verbatim>\<open>None\<close> for a request that raised.
\<close>

definition requests_get ::
  "world \<Rightarrow> request list \<Rightarrow> string \<Rightarrow> (string \<times> pyval) list
     \<Rightarrow> request list \<times> (exn + response)" where
  "requests_get w log u ps =
     (let r = \<lparr>url = u, params = ps\<rparr> in (log @ [r], net w log r))"

definition grequests_get :: "string \<Rightarrow> (string \<times> pyval) list \<Rightarrow> request" where
  "grequests_get u ps = \<lparr>url = u, params = ps\<rparr>"

fun grequests_map ::
  "world \<Rightarrow> request list \<Rightarrow> request list \<Rightarrow> request list \<times> response option list" where
  "grequests_map w log [] = (log, [])"
| "grequests_map w log (r # rs) =
     (case grequests_map w (log @ [r]) rs of
        (log', rest) \<Rightarrow>
          (log', (case net w log r of Inl e \<Rightarrow> None | Inr x \<Rightarrow> Some x) # rest))"

subsection \<open>\<^verbatim>\<open>single_station_info\<close>\<close>

text \<open>
  \<^verbatim>\<open>pd.DataFrame(json.loads(text)['STATION'])\<close>: the three steps that
  \<^verbatim>\<open>single_station_info\<close>, \<^verbatim>\<open>multi_station_info\<close> and \<^verbatim>\<open>metadata\<close> each apply to the text
  of a response.
\<close>

definition station_table :: "world \<Rightarrow> string \<Rightarrow> exn + frame" where
  "station_table w txt =
     (case json_loads w txt of
        Inl e \<Rightarrow> Inl e
      | Inr data \<Rightarrow>
          (case py_getitem data ''STATION'' of
             Inl e \<Rightarrow> Inl e
           | Inr st \<Rightarrow> DataFrame w st))"

definition single_station_info ::
  "world \<Rightarrow> request list \<Rightarrow> pyval \<Rightarrow> request list \<times> (exn + frame)" where
  "single_station_info w log stid =
     (case requests_get w log station_info_url [(''stationID'', stid)] of
        (log1, Inl e) \<Rightarrow> (log1, Inl e)
      | (log1, Inr r) \<Rightarrow> (log1, station_table w (resp_text r)))"

subsection \<open>\<^verbatim>\<open>multi_station_info\<close>\<close>

text \<open>
  A response is true when its status is not an error status (\<^verbatim>\<open>Response.ok\<close>).
\<close>

definition response_bool :: "response \<Rightarrow> bool" where
  "response_bool rs = (\<not> (400 \<le> status_code rs \<and> status_code rs < 600))"

text \<open>
  The argument of the logging call, \<^verbatim>\<open>d['STATION_ID'][0]\<close>: it raises \<^verbatim>\<open>KeyError\<close> when
  the frame has no such column or the column has no row labelled 0.
\<close>

definition logged_station_id :: "frame \<Rightarrow> exn + unit" where
  "logged_station_id d =
     (case getitem d ''STATION_ID'' of
        Inl e \<Rightarrow> Inl e
      | Inr v \<Rightarrow> if PyInt 0 \<in> set (case v of Series_obj s \<Rightarrow> sindex s
                                         | DataFrame_obj f \<Rightarrow> columns f)
               then Inr () else Inl (KeyError ''0''))"

text \<open>
  The body of the loop over the responses, lines 95 to 106. The \<^verbatim>\<open>try\<close> block appends
  to \<open>df\<close> before it logs, and \<^verbatim>\<open>except Exception: pass\<close> swallows whatever any of
  its steps raises: an exception before the append leaves \<open>df\<close> as it was, an exception
  of the logging call leaves the appended entry in place.
\<close>

definition try_block :: "world \<Rightarrow> bool \<Rightarrow> response \<Rightarrow> ndframe list \<Rightarrow> ndframe list" where
  "try_block w fields_flag rs df =
     (case station_table w (resp_text rs) of
        Inl e \<Rightarrow> df
      | Inr d \<Rightarrow>
          (case (if fields_flag then Inr (df @ [DataFrame_obj d])
                 else (case iloc0 w d of
                         Inl e \<Rightarrow> Inl e
                       | Inr s \<Rightarrow> Inr (df @ [Series_obj s]))) of
             Inl e \<Rightarrow> df
           | Inr df' \<Rightarrow>
               (case logged_station_id d of
                  Inl e \<Rightarrow> df'
                | Inr u \<Rightarrow> df')))"

definition loop_body :: "world \<Rightarrow> bool \<Rightarrow> response option \<Rightarrow> ndframe list \<Rightarrow> ndframe list" where
  "loop_body w fields_flag rs df =
     (case rs of
        None \<Rightarrow> df
      | Some r \<Rightarrow>
          if response_bool r then
            if status_code r = 200 then try_block w fields_flag r df else df
          else df)"

fun parse_responses ::
  "world \<Rightarrow> bool \<Rightarrow> response option list \<Rightarrow> ndframe list \<Rightarrow> ndframe list" where
  "parse_responses w fields_flag [] df = df"
| "parse_responses w fields_flag (rs # res) df =
     parse_responses w fields_flag res (loop_body w fields_flag rs df)"

text \<open>What one response adds to \<open>df\<close>: nothing, or one entry.\<close>

definition contribution :: "world \<Rightarrow> bool \<Rightarrow> response option \<Rightarrow> ndframe list" where
  "contribution w fields_flag rs = loop_body w fields_flag rs []"

text \<open>
  \<open>station_results\<close> is the list \<open>df\<close> as it stands at line 110, before the
  concatenation.
\<close>

definition station_requests :: "pyval list \<Rightarrow> request list" where
  "station_requests stids =
     map (\<lambda>s. grequests_get station_info_url [(''stationID'', s)]) stids"

definition station_results ::
  "world \<Rightarrow> request list \<Rightarrow> pyval list \<Rightarrow> bool \<Rightarrow> ndframe list" where
  "station_results w log stids fields_flag =
     parse_responses w fields_flag (snd (grequests_map w log (station_requests stids))) []"

definition multi_station_info ::
  "world \<Rightarrow> request list \<Rightarrow> pyval list \<Rightarrow> bool \<Rightarrow> request list \<times> (exn + frame)" where
  "multi_station_info w log stids fields_flag =
     (let r = station_requests stids in
      case grequests_map w log r of
        (log', res) \<Rightarrow>
          (let df = parse_responses w fields_flag res [] in
           (log', case pd_concat_axis1 w df of
                    Inl e \<Rightarrow> Inl e
                  | Inr c \<Rightarrow> reset_index w (transpose_frame w c))))"

subsection \<open>\<^verbatim>\<open>metadata\<close>\<close>

text \<open>
  The database object is not part of the module; what \<^verbatim>\<open>metadata\<close> hands to it is the
  call \<^verbatim>\<open>insert_data(DF, description='CDEC metadata', metadata=True)\<close>.
\<close>

record insert_data_call =
  table :: frame
  description :: string
  is_metadata :: bool

text \<open>Lines 139 and 140: the loop over \<open>conversion\<close>.\<close>

fun convert_columns ::
  "world \<Rightarrow> frame \<Rightarrow> (string \<times> string) list \<Rightarrow> frame \<Rightarrow> exn + frame" where
  "convert_columns w info [] DF = Inr DF"
| "convert_columns w info ((c, k) # cs) DF =
     bind_exn (getitem info c) (\<lambda>v.
     bind_exn (setitem w DF k v) (\<lambda>DF'.
     convert_columns w info cs DF'))"

text \<open>Lines 138 to 150: from the table of the service to the table of the database.\<close>

definition database_format :: "world \<Rightarrow> frame \<Rightarrow> exn + frame" where
  "database_format w info =
     bind_exn (convert_columns w info conversion empty_frame) (\<lambda>DF.
     bind_exn (getitem DF ''latitude'') (\<lambda>lat.
     bind_exn (setitem w DF ''reported_lat'' lat) (\<lambda>DF.
     bind_exn (getitem DF ''longitude'') (\<lambda>lon.
     bind_exn (setitem w DF ''reported_long'' lon) (\<lambda>DF.
     Inr (setitem_scalar w
            (setitem_scalar w
               (setitem_scalar w DF ''source'' (PyStr ''cdec''))
               ''state'' (PyStr ''CA''))
            ''timezone'' (PyStr ''PDT'')))))))"

definition metadata :: "world \<Rightarrow> request list \<Rightarrow> request list \<times> (exn + insert_data_call)" where
  "metadata w log =
     (case requests_get w log all_stations_url [] of
        (log1, Inl e) \<Rightarrow> (log1, Inl e)
      | (log1, Inr r) \<Rightarrow>
          (case bind_exn (station_table w (resp_text r)) (\<lambda>df. getitem df ''STATION_ID'') of
             Inl e \<Rightarrow> (log1, Inl e)
           | Inr stids \<Rightarrow>
               (case multi_station_info w log1 (py_iter stids) False of
                  (log2, Inl e) \<Rightarrow> (log2, Inl e)
                | (log2, Inr info) \<Rightarrow>
                    (log2,
                     bind_exn (database_format w info) (\<lambda>DF.
                     Inr \<lparr>table = where_notnull w DF,
                          description = ''CDEC metadata'',
                          is_metadata = True\<rparr>)))))"


section \<open>What the statements observe\<close>

definition values_tolist :: "frame \<Rightarrow> pyval list list" where
  \<comment> \<open>\<^verbatim>\<open>frame.values.tolist()\<close>: the cells, row by row\<close>
  "values_tolist f = map (\<lambda>i. map (cell f i) [0..<length (columns f)]) [0..<length (index f)]"

definition column_values :: "frame \<Rightarrow> string \<Rightarrow> pyval list" where
  \<comment> \<open>the cells of the first column labelled \<open>k\<close>, top to bottom\<close>
  "column_values f k =
     (case find_pos (columns f) (PyStr k) of
        None \<Rightarrow> []
      | Some j \<Rightarrow> map (\<lambda>i. cell f i j) [0..<length (index f)])"

definition series_get :: "series \<Rightarrow> pyval \<Rightarrow> pyval" where
  \<comment> \<open>the value of a Series under a label, \<^verbatim>\<open>nan\<close> when it has no such label\<close>
  "series_get s l = (case find_pos (sindex s) l of None \<Rightarrow> NaN | Some p \<Rightarrow> sval s p)"


text \<open>The request that \<^verbatim>\<open>metadata\<close> issues first, for the directory of all stations.\<close>

definition directory_request :: request where
  "directory_request = \<lparr>url = all_stations_url, params = []\<rparr>"

text \<open>
  The station identifiers that \<^verbatim>\<open>metadata\<close> reads from the directory, and the
  responses that \<^verbatim>\<open>grequests.map\<close> returns for them, one per identifier and in the
  order of the directory.
\<close>

definition directory_stids :: "world \<Rightarrow> request list \<Rightarrow> pyval list" where
  "directory_stids w log =
     (case net w log directory_request of
        Inl e \<Rightarrow> []
      | Inr r \<Rightarrow>
          (case bind_exn (station_table w (resp_text r)) (\<lambda>df. getitem df ''STATION_ID'') of
             Inl e \<Rightarrow> []
           | Inr stids \<Rightarrow> py_iter stids))"

definition station_responses :: "world \<Rightarrow> request list \<Rightarrow> response option list" where
  "station_responses w log =
     snd (grequests_map w (log @ [directory_request]) (station_requests (directory_stids w log)))"

text \<open>
  A station succeeded when its request was answered with status 200 and the payload
  parsed into a frame with at least one record. \<open>station_frame\<close> is that frame,
  \<open>successful_frames\<close> are the frames of the stations of a run of \<^verbatim>\<open>metadata\<close> that
  succeeded, in the order of the directory, and \<open>present_fields\<close> are the labels of
  their columns: the fields present in the payloads.
\<close>

definition succeeded :: "world \<Rightarrow> response option \<Rightarrow> bool" where
  "succeeded w rs =
     (case rs of
        None \<Rightarrow> False
      | Some r \<Rightarrow>
          status_code r = 200 \<and>
          (case station_table w (resp_text r) of Inl e \<Rightarrow> False | Inr d \<Rightarrow> index d \<noteq> []))"

definition station_frame :: "world \<Rightarrow> response option \<Rightarrow> frame" where
  "station_frame w rs =
     (case rs of
        None \<Rightarrow> empty_frame
      | Some r \<Rightarrow> (case station_table w (resp_text r) of Inl e \<Rightarrow> empty_frame | Inr d \<Rightarrow> d))"

definition successful_frames :: "world \<Rightarrow> request list \<Rightarrow> frame list" where
  "successful_frames w log =
     map (station_frame w) (filter (succeeded w) (station_responses w log))"

definition present_fields :: "world \<Rightarrow> request list \<Rightarrow> pyval list" where
  "present_fields w log = concat (map columns (successful_frames w log))"

definition first_value :: "frame \<Rightarrow> string \<Rightarrow> pyval" where
  \<comment> \<open>the value of the first record of a station under a field, \<^verbatim>\<open>nan\<close> without the field\<close>
  "first_value d k = (case find_pos (columns d) (PyStr k) of None \<Rightarrow> NaN | Some j \<Rightarrow> cell d 0 j)"

text \<open>The first row of a frame, as \<open>iloc0\<close> returns it.\<close>

definition first_row :: "world \<Rightarrow> frame \<Rightarrow> series" where
  "first_row w d =
     \<lparr>name = index d ! 0, sindex = columns d, sdtype = pd_common w (column_dtypes d),
      sval = (\<lambda>j. pd_cast w (pd_common w (column_dtypes d)) (cell d 0 j))\<rparr>"

text \<open>
  The table of a run of \<^verbatim>\<open>metadata\<close> that reaches the database, and the table that a
  call of \<^verbatim>\<open>multi_station_info\<close> for the one station \<open>A\<close> returns.
\<close>

definition handed_table :: "world \<Rightarrow> frame" where
  "handed_table w = table (projr (snd (metadata w [])))"

definition returned_table :: "world \<Rightarrow> bool \<Rightarrow> frame" where
  "returned_table w fields_flag = projr (snd (multi_station_info w [] [PyStr ''A''] fields_flag))"

text \<open>
  Closed forms of the two halves of \<open>database_format\<close>: the loop over \<open>conversion\<close>
  copies, for each pair, the one column of \<open>info\<close> with the source label; the rest
  appends the two copies of the coordinates and the three constant columns.
\<close>

definition source_position :: "frame \<Rightarrow> string \<Rightarrow> nat" where
  "source_position info c = hd (positions (columns info) (PyStr c))"

definition source_column :: "frame \<Rightarrow> string \<Rightarrow> nat \<Rightarrow> pyval" where
  "source_column info c = (\<lambda>i. cell info i (source_position info c))"

definition selected :: "frame \<Rightarrow> (string \<times> string) list \<Rightarrow> frame \<Rightarrow> frame" where
  "selected info cs DF0 =
     foldl (\<lambda>DF ck. set_column DF (PyStr (snd ck))
                       (dtypes info (source_position info (fst ck)))
                       (source_column info (fst ck))) DF0 cs"

definition with_reported_and_tags :: "world \<Rightarrow> frame \<Rightarrow> frame" where
  "with_reported_and_tags w DF6 =
     setitem_scalar w
       (setitem_scalar w
          (setitem_scalar w
             (set_column
                (set_column DF6 (PyStr ''reported_lat'') (dtypes DF6 0) (\<lambda>i. cell DF6 i 0))
                (PyStr ''reported_long'') (dtypes DF6 2) (\<lambda>i. cell DF6 i 2))
             ''source'' (PyStr ''cdec''))
          ''state'' (PyStr ''CA''))
       ''timezone'' (PyStr ''PDT'')"

section \<open>Worlds\<close>

definition station_record :: "string \<Rightarrow> pyval \<Rightarrow> pyval \<Rightarrow> pyval" where
  "station_record sid lat lon =
     PyDict [(''STATION_ID'', PyStr sid), (''LATITUDE'', lat), (''LONGITUDE'', lon),
             (''STATION_NAME'', PyStr ''GAUGE''), (''ELEVATION'', PyInt 100),
             (''AGENCY_NAME'', PyStr ''DWR'')]"

definition directory_of :: "string list \<Rightarrow> pyval" where
  "directory_of sids = PyDict [(''STATION'', PyList (map (\<lambda>s. PyDict [(''STATION_ID'', PyStr s)]) sids))]"

text \<open>A world in which the service is unreachable.\<close>

definition world_down :: world where
  "world_down =
     pandas_world (\<lambda>log r. Inl (ConnectionError ''Connection refused''))
       (\<lambda>txt. Inl (JSONDecodeError ''Expecting value''))"

text \<open>
  A world with one station: the directory lists \<open>A\<close>, and every request for a station
  is answered with status 200 and the given payload.
\<close>

definition world_single :: "pyval \<Rightarrow> world" where
  "world_single payload =
     pandas_world
       (\<lambda>log r.
          if params r = [] then Inr \<lparr>status_code = 200, resp_text = ''directory''\<rparr>
          else Inr \<lparr>status_code = 200, resp_text = ''station''\<rparr>)
       (\<lambda>txt. if txt = ''directory'' then Inr (directory_of [''A'']) else Inr payload)"

definition payload_of :: "(string \<times> pyval) list list \<Rightarrow> pyval" where
  "payload_of recs = PyDict [(''STATION'', PyList (map PyDict recs))]"

text \<open>
  The station answers with one complete record; its longitude is \<^verbatim>\<open>nan\<close>.
\<close>

definition full_record :: "string \<Rightarrow> (string \<times> pyval) list" where
  "full_record sid = dict_items (station_record sid (PyInt 10) NaN)"

definition station_world :: "string \<Rightarrow> world" where
  "station_world sid = world_single (payload_of [full_record sid])"



text \<open>The station answers with two sensor records.\<close>

definition world_two_sensors :: world where
  "world_two_sensors =
     world_single (payload_of [[(''STATION_ID'', PyStr ''A''), (''SENS_NO'', PyInt 1)],
                               [(''STATION_ID'', PyStr ''A''), (''SENS_NO'', PyInt 2)]])"



text \<open>The requests of a run of \<^verbatim>\<open>metadata\<close> in a world with one station.\<close>

definition single_log :: "request list" where
  "single_log = [directory_request, grequests_get station_info_url [(''stationID'', PyStr ''A'')]]"

text \<open>
  A world with four stations. The directory lists \<open>A\<close>, \<open>B\<close>, \<open>C\<close> and \<open>D\<close>. Station
  \<open>A\<close> answers with a complete record, the request for \<open>B\<close> is answered with status
  500, the answer for \<open>C\<close> is not JSON, and station \<open>D\<close> answers with a complete
  record that has one more field.
\<close>

definition world_abcd :: world where
  "world_abcd =
     pandas_world
       (\<lambda>log r.
          if params r = [] then Inr \<lparr>status_code = 200, resp_text = ''directory''\<rparr>
          else if params r = [(''stationID'', PyStr ''A'')]
          then Inr \<lparr>status_code = 200, resp_text = ''A''\<rparr>
          else if params r = [(''stationID'', PyStr ''B'')]
          then Inr \<lparr>status_code = 500, resp_text = ''Internal Server Error''\<rparr>
          else if params r = [(''stationID'', PyStr ''C'')]
          then Inr \<lparr>status_code = 200, resp_text = ''<html>''\<rparr>
          else Inr \<lparr>status_code = 200, resp_text = ''D''\<rparr>)
       (\<lambda>txt.
          if txt = ''directory'' then Inr (directory_of [''A'', ''B'', ''C'', ''D''])
          else if txt = ''A'' then Inr (payload_of [full_record ''A''])
          else if txt = ''D'' then Inr (payload_of [full_record ''D'' @ [(''COUNTY'', PyStr ''INYO'')]])
          else Inl (JSONDecodeError ''Expecting value''))"

section \<open>The loop over the responses\<close>

lemma try_block_append: "try_block w fields_flag r df = df @ try_block w fields_flag r []"
  by (simp add: try_block_def split: sum.splits)

lemma loop_body_append: "loop_body w fields_flag rs df = df @ contribution w fields_flag rs"
  using try_block_append [of w fields_flag _ df]
  by (simp add: loop_body_def contribution_def split: option.splits)

lemma parse_responses_concat:
  "parse_responses w fields_flag res df = df @ concat (map (contribution w fields_flag) res)"
proof (induction res arbitrary: df)
  case Nil
  show ?case by simp
next
  case (Cons rs res)
  show ?case
    by (simp add: Cons.IH loop_body_append [of w fields_flag rs df])
qed

lemma length_try_block: "length (try_block w fields_flag r []) \<le> 1"
  by (simp add: try_block_def split: sum.splits)

lemma length_contribution: "length (contribution w fields_flag rs) \<le> 1"
  using length_try_block [of w fields_flag]
  by (simp add: contribution_def loop_body_def split: option.splits)

lemma length_concat_contributions:
  "length (concat (map (contribution w fields_flag) res)) \<le> length res"
proof (induction res)
  case Nil
  show ?case by simp
next
  case (Cons rs res)
  then show ?case
    using length_contribution [of w fields_flag rs] by simp
qed

lemma grequests_map_log: "fst (grequests_map w log rs) = log @ rs"
  by (induction rs arbitrary: log) (simp_all add: case_prod_beta)

lemma length_grequests_map: "length (snd (grequests_map w log rs)) = length rs"
  by (induction rs arbitrary: log) (simp_all add: case_prod_beta)

lemma multi_station_info_results:
  "snd (multi_station_info w log stids fields_flag) =
     (case pd_concat_axis1 w (station_results w log stids fields_flag) of
        Inl e \<Rightarrow> Inl e | Inr c \<Rightarrow> reset_index w (transpose_frame w c))"
  by (simp add: multi_station_info_def station_results_def Let_def split: prod.splits)

lemma multi_station_info_log:
  "fst (multi_station_info w log stids fields_flag) = log @ station_requests stids"
  by (simp add: multi_station_info_def Let_def case_prod_beta grequests_map_log)

lemma pandas_world_simps:
  "net (pandas_world n j) = n"
  "json_loads (pandas_world n j) = j"
  "pd_other (pandas_world n j) = (\<lambda>v. Inl (ValueError ''not a list of records''))"
  "pd_infer (pandas_world n j) = pandas_infer"
  "pd_common (pandas_world n j) = pandas_common"
  "pd_promote (pandas_world n j) = pandas_promote"
  "pd_cast (pandas_world n j) = pandas_cast"
  "pd_where_None (pandas_world n j) = pandas_where_None"
  by (simp_all add: pandas_world_def)

lemma station_results_down: "station_results world_down [] [PyStr ''A'', PyStr ''B''] False = []"
  by (simp add: station_results_def station_requests_def world_down_def loop_body_def
                pandas_world_simps)

lemma contribution_summary_series:
  "list_all is_series (contribution w False rs)"
  by (simp add: contribution_def loop_body_def try_block_def split: option.splits sum.splits)

lemma station_results_series: "list_all is_series (station_results w log stids False)"
  using contribution_summary_series [of w]
  by (auto simp: station_results_def parse_responses_concat list_all_iff)

text \<open>
  The two modes: a station that answers with status 200 and a payload that parses adds
  its whole frame when \<open>fields_flag\<close> holds, and the first row of the frame otherwise.
\<close>

lemma aggregation_mode:
  assumes "status_code r = 200" and "station_table w (resp_text r) = Inr d"
  shows "contribution w True (Some r) = [DataFrame_obj d]"
    and "index d \<noteq> [] \<Longrightarrow>
         contribution w False (Some r) =
           [Series_obj (first_row w d)]"
  using assms
  by (simp_all add: contribution_def loop_body_def response_bool_def try_block_def iloc0_def
                    first_row_def
               split: sum.splits)

text \<open>
  C1. When no response yields an entry, so that the list \<open>df\<close> is empty at line 110,
  \<^verbatim>\<open>multi_station_info\<close> does not return a table: the concatenation raises
  \<^verbatim>\<open>ValueError('No objects to concatenate')\<close>.
\<close>

theorem no_results_raises:
  "station_results w log stids fields_flag = [] \<Longrightarrow>
   snd (multi_station_info w log stids fields_flag) = Inl (ValueError ''No objects to concatenate'')"
  by (simp add: multi_station_info_results pd_concat_axis1_def)

theorem no_results_raises_witness:
  "station_results world_down [] [PyStr ''A'', PyStr ''B''] False = [] \<and>
   snd (multi_station_info world_down [] [PyStr ''A'', PyStr ''B''] False)
     = Inl (ValueError ''No objects to concatenate'')"
  using no_results_raises [OF station_results_down] station_results_down by simp

text \<open>
  C4. For a list of \<open>N\<close> station identifiers the list \<open>df\<close> that
  \<^verbatim>\<open>multi_station_info\<close> accumulates has at most \<open>N\<close> entries (and, being a list, at
  least none): \<^verbatim>\<open>grequests.map\<close> returns one response slot per request, and each slot
  adds at most one entry.
\<close>

theorem multi_station_info_at_most_N:
  "length (station_results w log stids fields_flag) \<le> length stids"
proof -
  have "length (station_results w log stids fields_flag)
          \<le> length (snd (grequests_map w log (station_requests stids)))"
    unfolding station_results_def parse_responses_concat
    using length_concat_contributions by simp
  also have "\<dots> = length stids"
    by (simp add: length_grequests_map station_requests_def)
  finally show ?thesis .
qed

text \<open>
  C5. A station is skipped silently when its response is missing (\<^verbatim>\<open>None\<close>), when its
  status is not 200, or when its payload does not parse: \<^verbatim>\<open>json.loads\<close> raises, the
  result has no entry \<^verbatim>\<open>'STATION'\<close>, pandas cannot build a frame from it, or, when only
  the first record is kept, there is no first record. The loop body then returns
  \<open>df\<close> unchanged, and the whole loop ends with the list it would have built had the
  station not been asked for. No exception leaves the loop body: its value is always a
  list.
\<close>

theorem failed_station_is_skipped:
  assumes "rs = None \<or>
           (\<exists>r. rs = Some r \<and>
                (status_code r \<noteq> 200 \<or>
                 (\<exists>e. station_table w (resp_text r) = Inl e) \<or>
                 (\<not> fields_flag \<and> (\<exists>d. station_table w (resp_text r) = Inr d \<and> index d = []))))"
  shows "loop_body w fields_flag rs df = df \<and>
         parse_responses w fields_flag (before @ rs # after) [] =
           parse_responses w fields_flag (before @ after) []"
proof -
  have "contribution w fields_flag rs = []"
    using assms
    by (auto simp: contribution_def loop_body_def try_block_def iloc0_def split: option.splits)
  then show ?thesis
    by (simp add: parse_responses_concat loop_body_append [of w fields_flag rs df])
qed

theorem failed_station_is_skipped_witness:
  "loop_body world_down False None [] = [] \<and>
   loop_body world_down False (Some \<lparr>status_code = 500, resp_text = ''Internal Server Error''\<rparr>) [] = [] \<and>
   loop_body world_down True (Some \<lparr>status_code = 200, resp_text = ''<html>''\<rparr>) [] = []"
proof -
  have 1: "loop_body world_down False None [] = []"
    using failed_station_is_skipped [of None world_down False "[]" "[]" "[]"] by simp
  have 2: "loop_body world_down False (Some \<lparr>status_code = 500, resp_text = ''Internal Server Error''\<rparr>) [] = []"
    using failed_station_is_skipped [of "Some \<lparr>status_code = 500, resp_text = ''Internal Server Error''\<rparr>" world_down False "[]" "[]" "[]"] by simp
  have "station_table world_down ''<html>'' = Inl (JSONDecodeError ''Expecting value'')"
    by (simp add: station_table_def world_down_def pandas_world_simps)
  then have 3: "loop_body world_down True (Some \<lparr>status_code = 200, resp_text = ''<html>''\<rparr>) [] = []"
    using failed_station_is_skipped [of "Some \<lparr>status_code = 200, resp_text = ''<html>''\<rparr>" world_down True "[]" "[]" "[]"] by simp
  from 1 2 3 show ?thesis by simp
qed

section \<open>The directory\<close>

lemma bind_exn_simps [simp]:
  "bind_exn (Inl e) f = Inl e"
  "bind_exn (Inr x) f = f x"
  by (simp_all add: bind_exn_def)

lemma bind_exn_Inr_iff:
  "bind_exn m f = Inr y \<longleftrightarrow> (\<exists>x. m = Inr x \<and> f x = Inr y)"
  by (cases m) simp_all

text \<open>
  C9. When the directory fetch fails (the request raises, the payload does not parse
  into a frame, or the frame has no column \<^verbatim>\<open>STATION_ID\<close>), \<^verbatim>\<open>metadata\<close> raises that
  exception with the directory request as the only request it has issued: no request
  to the station endpoint has been added to the log.
\<close>

theorem directory_failure_stops_metadata:
  assumes "net w log directory_request = Inl e \<or>
           (\<exists>r. net w log directory_request = Inr r \<and>
                (station_table w (resp_text r) = Inl e \<or>
                 (\<exists>df. station_table w (resp_text r) = Inr df \<and> getitem df ''STATION_ID'' = Inl e)))"
  shows "metadata w log = (log @ [directory_request], Inl e) \<and>
         filter (\<lambda>r. url r = station_info_url) (fst (metadata w log))
           = filter (\<lambda>r. url r = station_info_url) log"
proof -
  have m: "metadata w log = (log @ [directory_request], Inl e)"
    using assms
    by (auto simp: metadata_def requests_get_def directory_request_def Let_def)
  have "url directory_request \<noteq> station_info_url"
    by (simp add: directory_request_def all_stations_url_def station_info_url_def)
  with m show ?thesis by simp
qed

theorem directory_failure_stops_metadata_witness:
  "metadata world_down [] = ([directory_request], Inl (ConnectionError ''Connection refused'')) \<and>
   filter (\<lambda>r. url r = station_info_url) (fst (metadata world_down [])) = []"
proof -
  have "net world_down [] directory_request = Inl (ConnectionError ''Connection refused'')"
    by (simp add: world_down_def pandas_world_simps)
  then show ?thesis
    using directory_failure_stops_metadata [of world_down "[]" "ConnectionError ''Connection refused''"]
    by (simp add: directory_request_def all_stations_url_def station_info_url_def)
qed

lemma metadata_InrD:
  assumes "metadata w log = (log', Inr call)"
  shows "\<exists>r df stids info DF.
           net w log directory_request = Inr r \<and>
           station_table w (resp_text r) = Inr df \<and>
           getitem df ''STATION_ID'' = Inr stids \<and>
           multi_station_info w (log @ [directory_request]) (py_iter stids) False = (log', Inr info) \<and>
           database_format w info = Inr DF \<and>
           call = \<lparr>table = where_notnull w DF, description = ''CDEC metadata'', is_metadata = True\<rparr>"
  using assms
  by (auto simp: metadata_def requests_get_def directory_request_def Let_def bind_exn_Inr_iff
           split: sum.splits prod.splits)

section \<open>Facts about the pandas operations\<close>

lemma positions_Nil: "positions [] c = []"
  by (simp add: positions_def)

lemma positions_Cons:
  "positions (x # xs) c = (if x = c then [0] else []) @ map Suc (positions xs c)"
proof -
  have "[0..<Suc (length xs)] = 0 # map Suc [0..<length xs]"
    by (simp add: upt_conv_Cons map_Suc_upt del: upt_Suc)
  then show ?thesis
    by (simp add: positions_def filter_map comp_def del: upt_Suc)
qed

lemma find_pos_positions:
  "find_pos xs l = (case positions xs l of [] \<Rightarrow> None | p # ps \<Rightarrow> Some p)"
  by (induction xs) (auto simp: positions_Nil positions_Cons split: list.splits)

lemma positions_single_nth:
  "positions xs l = [q] \<Longrightarrow> q < length xs \<and> xs ! q = l"
proof -
  assume "positions xs l = [q]"
  then have "q \<in> set (positions xs l)" by simp
  then show ?thesis by (simp add: positions_def)
qed

lemma positions_absent: "x \<notin> set xs \<Longrightarrow> positions xs x = []"
  by (induction xs) (auto simp: positions_Nil positions_Cons)

lemma positions_distinct: "distinct xs \<Longrightarrow> x \<in> set xs \<Longrightarrow> length (positions xs x) = 1"
proof (induction xs)
  case Nil
  then show ?case by simp
next
  case (Cons a xs)
  show ?case
  proof (cases "a = x")
    case True
    with Cons.prems(1) have "x \<notin> set xs" by simp
    with True show ?thesis by (simp add: positions_Cons positions_absent)
  next
    case False
    with Cons show ?thesis by (simp add: positions_Cons)
  qed
qed

lemma columns_set_column:
  "columns (set_column DF k dt g) = (if k \<in> set (columns DF) then columns DF else columns DF @ [k])"
  by (simp add: set_column_def)

lemma index_set_column: "index (set_column DF k dt g) = index DF"
  by (simp add: set_column_def)

lemma index_grown: "index (grown w DF idx) = (if index DF = [] then idx else index DF)"
  by (simp add: grown_def)

lemma columns_grown: "columns (grown w DF idx) = columns DF"
  by (simp add: grown_def)

lemma setitem_series_columns:
  "setitem_series w DF k s = Inr DF' \<Longrightarrow>
   columns DF' = (if PyStr k \<in> set (columns DF) then columns DF else columns DF @ [PyStr k])"
  by (auto simp: setitem_series_def Let_def columns_set_column columns_grown split: if_splits)

lemma setitem_columns:
  "setitem w DF k v = Inr DF' \<Longrightarrow>
   columns DF' = (if PyStr k \<in> set (columns DF) then columns DF else columns DF @ [PyStr k])"
  by (cases v) (auto simp: setitem_def dest: setitem_series_columns split: if_splits)

lemma getitem_single:
  assumes "length (positions (columns f) (PyStr k)) = 1"
  shows "getitem f k =
           Inr (Series_obj \<lparr>name = PyStr k, sindex = index f,
                            sdtype = dtypes f (source_position f k),
                            sval = source_column f k\<rparr>)"
proof -
  from assms obtain j where "positions (columns f) (PyStr k) = [j]"
    by (cases "positions (columns f) (PyStr k)") auto
  then show ?thesis by (simp add: getitem_def source_column_def source_position_def)
qed

lemma setitem_same_index:
  "sindex s = index DF \<Longrightarrow>
   setitem w DF k (Series_obj s) = Inr (set_column DF (PyStr k) (sdtype s) (sval s))"
  by (auto simp: setitem_def setitem_series_def grown_def)

lemma setitem_first:
  "index DF = [] \<Longrightarrow>
   setitem w DF k (Series_obj s) =
     Inr (set_column (grown w DF (sindex s)) (PyStr k) (sdtype s) (sval s))"
  by (simp add: setitem_def setitem_series_def index_grown)

lemma columns_where_notnull: "columns (where_notnull w DF) = columns DF"
  by (simp add: where_notnull_def)

lemma index_where_notnull: "index (where_notnull w DF) = index DF"
  by (simp add: where_notnull_def)

lemma values_tolist_nth:
  "i < length (index f) \<Longrightarrow> j < length (columns f) \<Longrightarrow> values_tolist f ! i ! j = cell f i j"
  by (simp add: values_tolist_def)

lemma upt_11: "[0..<11] = [0, 1, 2, 3, 4, 5, 6, 7, 8, 9, 10::nat]"
  by code_simp

lemma columns_reindex: "columns (reindex w idx f) = columns f"
  by (simp add: reindex_def)

lemma cell_concat_foldr:
  "list_all (\<lambda>f. length (columns f) = 1) fs \<Longrightarrow> i < length fs \<Longrightarrow>
   cell (foldr (\<lambda>f acc. hjoin (reindex w idx f) acc) fs base) r i = cell (reindex w idx (fs ! i)) r 0"
proof (induction fs arbitrary: i)
  case Nil
  then show ?case by simp
next
  case (Cons f fs)
  then show ?case
    by (cases i) (simp_all add: hjoin_def columns_reindex)
qed

lemma index_concat_foldr:
  "index base = idx \<Longrightarrow> index (foldr (\<lambda>f acc. hjoin (reindex w idx f) acc) fs base) = idx"
  by (induction fs) (simp_all add: hjoin_def reindex_def)

text \<open>
  A value that every dtype stores as it is comes through the alignment of a Series
  unchanged.
\<close>

lemma cell_reindex_series:
  assumes "positions idx l = [q]" and "series_get s l = v" and "\<And>dt. pd_cast w dt v = v"
  shows "cell (reindex w idx (to_frame (Series_obj s))) q 0 = v"
proof (cases "sindex s = idx")
  case True
  from assms(1) have "find_pos idx l = Some q" by (simp add: find_pos_positions)
  with True assms(2) show ?thesis by (simp add: reindex_def series_get_def)
next
  case False
  from positions_single_nth [OF assms(1)] have "idx ! q = l" by simp
  with False assms(2,3) show ?thesis by (simp add: reindex_def series_get_def split: option.splits)
qed

lemma length_series_names:
  "list_all is_series objs \<Longrightarrow> length (series_names k objs) = length objs"
proof (induction objs arbitrary: k)
  case Nil
  show ?case by simp
next
  case (Cons x objs)
  then show ?case by (cases x) simp_all
qed

lemma pd_concat_axis1_InrD:
  assumes "pd_concat_axis1 w objs = Inr c"
  shows "objs \<noteq> [] \<and> columns c = series_names 0 objs \<and>
         combined_index (map index (map to_frame objs)) = Inr (index c) \<and>
         cell c = cell (foldr (\<lambda>f acc. hjoin (reindex w (index c) f) acc) (map to_frame objs)
                          \<lparr>index = index c, columns = [], dtypes = (\<lambda>j. Object),
                           cell = (\<lambda>i j. NaN)\<rparr>)"
proof -
  from assms have ne: "objs \<noteq> []"
    by (auto simp: pd_concat_axis1_def)
  with assms obtain f where f: "concat_frames w (map to_frame objs) = Inr f"
    and c: "c = f\<lparr>columns := series_names 0 objs\<rparr>"
    by (auto simp: pd_concat_axis1_def split: sum.splits)
  from f obtain idx where ci: "combined_index (map index (map to_frame objs)) = Inr idx" and
    ff: "f = foldr (\<lambda>f acc. hjoin (reindex w idx f) acc) (map to_frame objs)
               \<lparr>index = idx, columns = [], dtypes = (\<lambda>j. Object), cell = (\<lambda>i j. NaN)\<rparr>"
    by (auto simp: concat_frames_def split: sum.splits)
  have "index f = idx"
    unfolding ff by (rule index_concat_foldr) simp
  with ne c ff ci show ?thesis by simp
qed

lemma pd_concat_axis1_Inr:
  assumes "objs \<noteq> []" and "combined_index (map index (map to_frame objs)) = Inr idx"
  shows "\<exists>c. pd_concat_axis1 w objs = Inr c \<and> index c = idx \<and> columns c = series_names 0 objs"
  using assms by (simp add: pd_concat_axis1_def concat_frames_def index_concat_foldr)

lemma reset_index_InrD:
  assumes "reset_index w f = Inr g"
  shows "index g = range_index (length (index f)) \<and>
         (\<exists>nm. (nm = PyStr ''index'' \<or> nm = PyStr ''level_0'') \<and> columns g = nm # columns f) \<and>
         (\<forall>i j. cell g i (Suc j) = cell f i j) \<and> (\<forall>j. dtypes g (Suc j) = dtypes f j)"
  using assms by (auto simp: reset_index_def Let_def split: if_splits)


text \<open>The row labels of the concatenation, when every object has distinct labels.\<close>

lemma set_uniq: "set (uniq xs) = set xs"
  by (simp add: uniq_def)

lemma distinct_uniq: "distinct (uniq xs)"
  by (simp add: uniq_def)

lemma combined_index_distinct:
  assumes "ixs \<noteq> []" and "list_all distinct ixs"
  shows "\<exists>idx. combined_index ixs = Inr idx \<and> distinct idx \<and> set idx = set (concat ixs)"
proof (cases "all_equal ixs")
  case True
  from assms(1) obtain ix rest where ixs: "ixs = ix # rest" by (cases ixs) auto
  with True have "\<forall>y \<in> set rest. y = ix" by (simp add: all_equal_def list_all_iff)
  then have "set (concat ixs) = set ix" by (auto simp: ixs)
  with True assms(2) show ?thesis by (simp add: combined_index_def ixs)
next
  case False
  with assms(2) show ?thesis by (simp add: combined_index_def set_uniq distinct_uniq)
qed

subsection \<open>The dtype rules at work\<close>

text \<open>
  With the rules of pandas 1.3 to 2: an integer in a column in which another record
  lacks the key is stored as a float; the first row of a frame of numbers is a
  \<^verbatim>\<open>float64\<close> Series, in which a large integer is rounded; aligning a column of
  integers to labels that it lacks makes it \<^verbatim>\<open>float64\<close>; and \<^verbatim>\<open>where(cond, None)\<close>
  leaves \<^verbatim>\<open>nan\<close> in a \<^verbatim>\<open>float64\<close> column and stores \<^verbatim>\<open>None\<close> in an \<^verbatim>\<open>object\<close> column.
\<close>

lemma from_records_missing_key:
  "values_tolist (from_records world_down [[(''a'', PyInt 1)], [(''b'', PyInt 2)]]) =
     [[PyFloat 1 0, NaN], [NaN, PyFloat 1 1]]"
  by code_simp

lemma iloc0_rounds:
  "map (sval (projr (iloc0 world_down
          (from_records world_down [[(''a'', PyInt (2 ^ 53 + 1)), (''b'', PyFloat 1 (- 1))]]))))
       [0, 1] = [PyFloat 1 53, PyFloat 1 (- 1)]"
  by code_simp

lemma reindex_upcasts:
  "values_tolist (reindex world_down [PyStr ''a'', PyStr ''b'']
      \<lparr>index = [PyStr ''a''], columns = [PyInt 0], dtypes = (\<lambda>j. Int64),
       cell = (\<lambda>i j. PyInt 9)\<rparr>) = [[PyFloat 9 0], [NaN]]"
  by code_simp

lemma where_notnull_by_dtype:
  "values_tolist (where_notnull world_down
      \<lparr>index = [PyInt 0], columns = [PyStr ''x'', PyStr ''y''],
       dtypes = (\<lambda>j. if j = 0 then Float64 else Object), cell = (\<lambda>i j. NaN)\<rparr>) =
     [[NaN, PyNone]]"
  by code_simp

section \<open>From the table of the service to the table of the database\<close>

lemma convert_columns_columns:
  "convert_columns w info cs DF0 = Inr DF \<Longrightarrow> distinct (map snd cs) \<Longrightarrow>
   PyStr ` snd ` set cs \<inter> set (columns DF0) = {} \<Longrightarrow>
   columns DF = columns DF0 @ map (\<lambda>ck. PyStr (snd ck)) cs"
proof (induction cs arbitrary: DF0)
  case Nil
  then show ?case by simp
next
  case (Cons ck cs)
  obtain c k where ck: "ck = (c, k)" by (cases ck)
  from Cons.prems(1) obtain v DF1 where
    v: "getitem info c = Inr v" and s: "setitem w DF0 k v = Inr DF1"
    and r: "convert_columns w info cs DF1 = Inr DF"
    by (auto simp: ck bind_exn_Inr_iff)
  from Cons.prems(3) have "PyStr k \<notin> set (columns DF0)" by (auto simp: ck)
  with setitem_columns [OF s] have c1: "columns DF1 = columns DF0 @ [PyStr k]" by simp
  from Cons.prems(2) have d: "distinct (map snd cs)" and kn: "k \<notin> snd ` set cs"
    by (auto simp: ck)
  have "PyStr ` snd ` set cs \<inter> set (columns DF1) = {}"
    using Cons.prems(3) kn by (auto simp: c1)
  from Cons.IH [OF r d this] show ?case by (simp add: c1 ck)
qed

lemma convert_columns_conversion:
  assumes "convert_columns w info conversion empty_frame = Inr DF"
  shows "columns DF = map PyStr [''latitude'', ''primary_id'', ''longitude'', ''station_name'',
                                  ''elevation'', ''primary_provider'']"
proof -
  have "distinct (map snd conversion)" by (simp add: conversion_def)
  moreover have "PyStr ` snd ` set conversion \<inter> set (columns empty_frame) = {}"
    by (simp add: empty_frame_def)
  ultimately have "columns DF = columns empty_frame @ map (\<lambda>ck. PyStr (snd ck)) conversion"
    using convert_columns_columns [OF assms] by blast
  then show ?thesis by (simp add: empty_frame_def conversion_def)
qed

lemma convert_columns_selected:
  "index DF0 = index info \<Longrightarrow>
   list_all (\<lambda>ck. length (positions (columns info) (PyStr (fst ck))) = 1) cs \<Longrightarrow>
   convert_columns w info cs DF0 = Inr (selected info cs DF0)"
proof (induction cs arbitrary: DF0)
  case Nil
  show ?case by (simp add: selected_def)
next
  case (Cons ck cs)
  obtain c k where ck: "ck = (c, k)" by (cases ck)
  from Cons.prems(2) have one: "length (positions (columns info) (PyStr c)) = 1"
    and rest: "list_all (\<lambda>ck. length (positions (columns info) (PyStr (fst ck))) = 1) cs"
    by (simp_all add: ck)
  let ?DF1 = "set_column DF0 (PyStr k) (dtypes info (source_position info c)) (source_column info c)"
  have "index ?DF1 = index info" by (simp add: index_set_column Cons.prems(1))
  from Cons.IH [OF this rest] show ?case
    by (simp add: ck getitem_single [OF one] setitem_same_index Cons.prems(1) selected_def)
qed

lemma convert_columns_from_empty:
  assumes "list_all (\<lambda>ck. length (positions (columns info) (PyStr (fst ck))) = 1) (ck # cs)"
  shows "convert_columns w info (ck # cs) empty_frame =
           Inr (selected info (ck # cs) (grown w empty_frame (index info)))"
proof -
  obtain c k where ck: "ck = (c, k)" by (cases ck)
  from assms have one: "length (positions (columns info) (PyStr c)) = 1"
    and rest: "list_all (\<lambda>ck. length (positions (columns info) (PyStr (fst ck))) = 1) cs"
    by (simp_all add: ck)
  let ?DF1 = "set_column (grown w empty_frame (index info)) (PyStr k)
                (dtypes info (source_position info c)) (source_column info c)"
  have e: "index empty_frame = []" by (simp add: empty_frame_def)
  have "index ?DF1 = index info" by (simp add: index_set_column index_grown e)
  from convert_columns_selected [OF this rest, of w] show ?thesis
    by (simp add: ck getitem_single [OF one] setitem_first [OF e] selected_def)
qed

lemma convert_columns_InrD:
  "convert_columns w info cs DF0 = Inr DF \<Longrightarrow>
   list_all (\<lambda>ck. length (positions (columns info) (PyStr (fst ck))) = 1) cs"
proof (induction cs arbitrary: DF0)
  case Nil
  show ?case by simp
next
  case (Cons ck cs)
  obtain c k where ck: "ck = (c, k)" by (cases ck)
  from Cons.prems obtain v DF1 where
    v: "getitem info c = Inr v" and s: "setitem w DF0 k v = Inr DF1"
    and r: "convert_columns w info cs DF1 = Inr DF"
    by (auto simp: ck bind_exn_Inr_iff)
  have "length (positions (columns info) (PyStr c)) = 1"
  proof (cases "positions (columns info) (PyStr c)")
    case Nil
    with v show ?thesis by (simp add: getitem_def)
  next
    case (Cons j js)
    show ?thesis
    proof (cases js)
      case Nil
      with Cons show ?thesis by simp
    next
      case (Cons j' js')
      with \<open>positions (columns info) (PyStr c) = j # js\<close> v s show ?thesis
        by (auto simp: getitem_def setitem_def)
    qed
  qed
  with Cons.IH [OF r] show ?case by (simp add: ck)
qed

text \<open>
  The loop over \<open>conversion\<close> stops at the first source field that labels no column of
  \<open>info\<close>: \<^verbatim>\<open>info[c]\<close> raises \<^verbatim>\<open>KeyError\<close>.
\<close>

lemma convert_columns_KeyError:
  "index DF0 = index info \<or> index DF0 = [] \<Longrightarrow> distinct (columns info) \<Longrightarrow>
   find (\<lambda>ck. PyStr (fst ck) \<notin> set (columns info)) cs = Some (c, k) \<Longrightarrow>
   convert_columns w info cs DF0 = Inl (KeyError c)"
proof (induction cs arbitrary: DF0)
  case Nil
  then show ?case by simp
next
  case (Cons ck cs)
  obtain c' k' where ck: "ck = (c', k')" by (cases ck)
  show ?case
  proof (cases "PyStr c' \<in> set (columns info)")
    case False
    with Cons.prems(3) have "c' = c" by (simp add: ck)
    with False show ?thesis by (simp add: ck getitem_def positions_absent)
  next
    case True
    with Cons.prems(3) have f: "find (\<lambda>ck. PyStr (fst ck) \<notin> set (columns info)) cs = Some (c, k)"
      by (simp add: ck)
    from positions_distinct [OF Cons.prems(2) True]
    have one: "length (positions (columns info) (PyStr c')) = 1" .
    let ?s = "\<lparr>name = PyStr c', sindex = index info,
                sdtype = dtypes info (source_position info c'),
                sval = source_column info c'\<rparr>"
    from Cons.prems(1) obtain DF1 where
      s: "setitem w DF0 k' (Series_obj ?s) = Inr DF1" and i: "index DF1 = index info"
    proof
      assume "index DF0 = index info"
      then have "setitem w DF0 k' (Series_obj ?s) =
                   Inr (set_column DF0 (PyStr k') (sdtype ?s) (sval ?s))"
        by (simp add: setitem_same_index)
      with \<open>index DF0 = index info\<close> that show ?thesis by (simp add: index_set_column)
    next
      assume e: "index DF0 = []"
      from setitem_first [OF e, of w k' ?s] e that show ?thesis
        by (simp add: index_set_column index_grown)
    qed
    from Cons.IH [of DF1, OF _ Cons.prems(2) f] i show ?thesis
      by (simp add: ck getitem_single [OF one] s)
  qed
qed

lemma database_format_eq:
  assumes c: "convert_columns w info conversion empty_frame = Inr DF6"
  shows "database_format w info = Inr (with_reported_and_tags w DF6)"
proof -
  note cols = convert_columns_conversion [OF c]
  have lat: "getitem DF6 ''latitude'' =
               Inr (Series_obj \<lparr>name = PyStr ''latitude'', sindex = index DF6,
                                sdtype = dtypes DF6 0, sval = (\<lambda>i. cell DF6 i 0)\<rparr>)"
    by (simp add: getitem_def cols positions_Cons positions_Nil)
  let ?DF7 = "set_column DF6 (PyStr ''reported_lat'') (dtypes DF6 0) (\<lambda>i. cell DF6 i 0)"
  have cols7: "columns ?DF7 = columns DF6 @ [PyStr ''reported_lat'']"
    by (simp add: columns_set_column cols)
  have lon: "getitem ?DF7 ''longitude'' =
               Inr (Series_obj \<lparr>name = PyStr ''longitude'', sindex = index ?DF7,
                                sdtype = dtypes ?DF7 2, sval = (\<lambda>i. cell ?DF7 i 2)\<rparr>)"
    by (simp add: getitem_def cols7 cols positions_Cons positions_Nil numeral_2_eq_2)
  have c72: "cell ?DF7 i 2 = cell DF6 i 2" for i
    by (simp add: set_column_def cols)
  have d72: "dtypes ?DF7 2 = dtypes DF6 2"
    by (simp add: set_column_def cols)
  show ?thesis
    by (simp add: database_format_def c lat lon setitem_same_index c72 d72 with_reported_and_tags_def)
qed

lemma database_format_selected:
  assumes "list_all (\<lambda>ck. length (positions (columns info) (PyStr (fst ck))) = 1) conversion"
  shows "database_format w info =
           Inr (with_reported_and_tags w
                  (selected info conversion (grown w empty_frame (index info))))"
proof -
  obtain ck cs where "conversion = ck # cs" by (simp add: conversion_def)
  with assms convert_columns_from_empty [of info ck cs w] show ?thesis
    by (simp add: database_format_eq)
qed

lemma database_format_KeyError:
  assumes "distinct (columns info)"
    and "find (\<lambda>ck. PyStr (fst ck) \<notin> set (columns info)) conversion = Some (c, k)"
  shows "database_format w info = Inl (KeyError c)"
proof -
  have "convert_columns w info conversion empty_frame = Inl (KeyError c)"
    by (rule convert_columns_KeyError [OF _ assms]) (simp add: empty_frame_def)
  then show ?thesis by (simp add: database_format_def)
qed

lemma database_format_InrD2:
  assumes "database_format w info = Inr DF"
  shows "DF = with_reported_and_tags w
                (selected info conversion (grown w empty_frame (index info)))
         \<and> list_all (\<lambda>ck. length (positions (columns info) (PyStr (fst ck))) = 1) conversion"
proof -
  from assms obtain DF6 where c: "convert_columns w info conversion empty_frame = Inr DF6"
    by (auto simp: database_format_def bind_exn_Inr_iff)
  from convert_columns_InrD [OF c] have
    l: "list_all (\<lambda>ck. length (positions (columns info) (PyStr (fst ck))) = 1) conversion" .
  from database_format_selected [OF l, of w] assms l show ?thesis by simp
qed

lemma columns_with_reported_and_tags:
  assumes "columns DF6 = map PyStr [''latitude'', ''primary_id'', ''longitude'', ''station_name'',
                                  ''elevation'', ''primary_provider'']"
  shows "columns (with_reported_and_tags w DF6) =
     map PyStr [''latitude'', ''primary_id'', ''longitude'', ''station_name'', ''elevation'',
                ''primary_provider'', ''reported_lat'', ''reported_long'', ''source'', ''state'',
                ''timezone'']"
  by (simp add: with_reported_and_tags_def setitem_scalar_def columns_set_column assms)

lemma index_selected: "index (selected info cs DF0) = index DF0"
  unfolding selected_def
  by (induction cs arbitrary: DF0) (simp_all add: index_set_column)

lemma index_with_reported_and_tags: "index (with_reported_and_tags w DF6) = index DF6"
  by (simp add: with_reported_and_tags_def setitem_scalar_def index_set_column)

lemma columns_selected_conversion:
  "columns (selected info conversion (grown w empty_frame idx)) =
     map PyStr [''latitude'', ''primary_id'', ''longitude'', ''station_name'',
                ''elevation'', ''primary_provider'']"
  by (simp add: selected_def conversion_def columns_set_column columns_grown empty_frame_def)

lemma primary_id_cell:
  "notnull (source_column info ''STATION_ID'' i) \<Longrightarrow>
   cell (where_notnull w (with_reported_and_tags w
           (selected info conversion (grown w empty_frame (index info))))) i 1
   = source_column info ''STATION_ID'' i"
  by (simp add: where_notnull_def with_reported_and_tags_def setitem_scalar_def selected_def
                conversion_def set_column_def columns_grown empty_frame_def)

lemma database_format_InrD:
  assumes "database_format w info = Inr DF"
  shows "\<exists>DF6. convert_columns w info conversion empty_frame = Inr DF6 \<and>
               DF = with_reported_and_tags w DF6"
proof -
  from assms obtain DF6 where c: "convert_columns w info conversion empty_frame = Inr DF6"
    by (auto simp: database_format_def bind_exn_Inr_iff)
  from database_format_eq [OF c] assms have "DF = with_reported_and_tags w DF6" by simp
  with c show ?thesis by blast
qed

lemma metadata_table:
  assumes "metadata w log = (log', Inr call)"
  shows "\<exists>DF6. columns DF6 = map PyStr [''latitude'', ''primary_id'', ''longitude'', ''station_name'',
                                  ''elevation'', ''primary_provider''] \<and>
               table call = where_notnull w (with_reported_and_tags w DF6)"
proof -
  from metadata_InrD [OF assms] obtain info DF where
    d: "database_format w info = Inr DF" and t: "table call = where_notnull w DF"
    by auto
  from database_format_InrD [OF d] obtain DF6 where
    c: "convert_columns w info conversion empty_frame = Inr DF6" and e: "DF = with_reported_and_tags w DF6"
    by auto
  from convert_columns_conversion [OF c] t e show ?thesis by blast
qed

lemma metadata_columns:
  assumes "metadata w log = (log', Inr call)"
  shows "columns (table call) =
     map PyStr [''latitude'', ''primary_id'', ''longitude'', ''station_name'', ''elevation'',
                ''primary_provider'', ''reported_lat'', ''reported_long'', ''source'', ''state'',
                ''timezone'']"
proof -
  from metadata_table [OF assms] obtain DF6 where
    c: "columns DF6 = map PyStr [''latitude'', ''primary_id'', ''longitude'', ''station_name'',
                                  ''elevation'', ''primary_provider'']"
    and t: "table call = where_notnull w (with_reported_and_tags w DF6)"
    by blast
  show ?thesis
    by (simp add: t columns_where_notnull columns_with_reported_and_tags [OF c])
qed

section \<open>The stations that succeeded\<close>

text \<open>
  In the mode of \<^verbatim>\<open>metadata\<close> a response adds an entry to \<open>df\<close> exactly when the
  station succeeded, and the entry is the first row of the station's frame.
\<close>

lemma contribution_succeeded:
  "contribution w False rs =
     (if succeeded w rs then [Series_obj (first_row w (station_frame w rs))] else [])"
  by (auto simp: contribution_def loop_body_def try_block_def iloc0_def succeeded_def
                 station_frame_def response_bool_def first_row_def
           split: option.splits sum.splits)

lemma concat_contributions:
  "concat (map (contribution w False) res) =
     map (\<lambda>rs. Series_obj (first_row w (station_frame w rs))) (filter (succeeded w) res)"
  by (induction res) (simp_all add: contribution_succeeded)

lemma metadata_station_results:
  "station_results w (log @ [directory_request]) (directory_stids w log) False =
     map (\<lambda>d. Series_obj (first_row w d)) (successful_frames w log)"
  by (simp add: station_results_def parse_responses_concat concat_contributions
                successful_frames_def station_responses_def comp_def)



lemma successful_frames_directory:
  "successful_frames w log \<noteq> [] \<Longrightarrow> directory_stids w log \<noteq> []"
  by (auto simp: successful_frames_def station_responses_def station_requests_def)

lemma metadata_stations:
  assumes "directory_stids w log \<noteq> []"
  shows "metadata w log =
           (case multi_station_info w (log @ [directory_request]) (directory_stids w log) False of
              (log2, Inl e) \<Rightarrow> (log2, Inl e)
            | (log2, Inr info) \<Rightarrow>
                (log2, bind_exn (database_format w info) (\<lambda>DF.
                         Inr \<lparr>table = where_notnull w DF, description = ''CDEC metadata'',
                              is_metadata = True\<rparr>)))"
  using assms
  by (auto simp: metadata_def requests_get_def directory_request_def directory_stids_def Let_def
           split: sum.splits)

lemma metadata_snd:
  assumes "successful_frames w log \<noteq> []"
  shows "snd (metadata w log) =
           (case pd_concat_axis1 w (map (\<lambda>d. Series_obj (first_row w d)) (successful_frames w log)) of
              Inl e \<Rightarrow> Inl e
            | Inr c \<Rightarrow>
                (case reset_index w (transpose_frame w c) of
                   Inl e \<Rightarrow> Inl e
                 | Inr info \<Rightarrow>
                     bind_exn (database_format w info) (\<lambda>DF.
                       Inr \<lparr>table = where_notnull w DF, description = ''CDEC metadata'',
                            is_metadata = True\<rparr>)))"
proof -
  note m = metadata_stations [OF successful_frames_directory [OF assms]]
  have "snd (metadata w log) =
          (case snd (multi_station_info w (log @ [directory_request]) (directory_stids w log) False) of
             Inl e \<Rightarrow> Inl e
           | Inr info \<Rightarrow>
               bind_exn (database_format w info) (\<lambda>DF.
                 Inr \<lparr>table = where_notnull w DF, description = ''CDEC metadata'',
                      is_metadata = True\<rparr>))"
    unfolding m by (simp split: prod.splits sum.splits)
  then show ?thesis
    by (simp add: multi_station_info_results metadata_station_results split: sum.splits)
qed

lemma metadata_fst:
  "directory_stids w log \<noteq> [] \<Longrightarrow>
   fst (metadata w log) = log @ directory_request # station_requests (directory_stids w log)"
proof -
  assume a: "directory_stids w log \<noteq> []"
  obtain log2 res where
    e: "multi_station_info w (log @ [directory_request]) (directory_stids w log) False = (log2, res)"
    by (cases "multi_station_info w (log @ [directory_request]) (directory_stids w log) False")
  with multi_station_info_log [of w "log @ [directory_request]" "directory_stids w log" False]
  have "log2 = log @ directory_request # station_requests (directory_stids w log)" by simp
  with e show ?thesis by (simp add: metadata_stations [OF a] split: sum.splits)
qed

text \<open>
  The table that \<^verbatim>\<open>multi_station_info\<close> builds from the first rows of the frames
  \<open>fs\<close>: its columns are the new column of the old row labels and, once each, the
  labels of the columns of the frames.
\<close>

lemma summary_table:
  assumes ne: "fs \<noteq> []" and d: "list_all (\<lambda>d. distinct (columns d)) fs"
    and nc: "\<not> (PyStr ''index'' \<in> set (concat (map columns fs)) \<and>
                PyStr ''level_0'' \<in> set (concat (map columns fs)))"
  shows "\<exists>c info nm idx.
           pd_concat_axis1 w (map (\<lambda>d. Series_obj (first_row w d)) fs) = Inr c \<and>
           reset_index w (transpose_frame w c) = Inr info \<and>
           columns info = nm # idx \<and> (nm = PyStr ''index'' \<or> nm = PyStr ''level_0'') \<and>
           nm \<notin> set idx \<and> distinct idx \<and> set idx = set (concat (map columns fs))"
proof -
  let ?res = "map (\<lambda>d. Series_obj (first_row w d)) fs"
  have ix: "map index (map to_frame ?res) = map columns fs"
    by (simp add: comp_def first_row_def)
  from ne d combined_index_distinct [of "map columns fs"] obtain idx where
    ci: "combined_index (map columns fs) = Inr idx" and di: "distinct idx"
    and si: "set idx = set (concat (map columns fs))"
    by (auto simp: list_all_iff)
  from ci have ci': "combined_index (map index (map to_frame ?res)) = Inr idx"
    unfolding ix .
  from ne have "?res \<noteq> []" by simp
  from pd_concat_axis1_Inr [OF this ci', of w] obtain c where
    c: "pd_concat_axis1 w ?res = Inr c" and ic: "index c = idx"
    by blast
  have ct: "columns (transpose_frame w c) = idx"
    by (simp add: transpose_frame_def ic)
  define nm where "nm = (if PyStr ''index'' \<in> set idx then PyStr ''level_0'' else PyStr ''index'')"
  from nc si have nn: "nm \<notin> set idx" by (auto simp: nm_def)
  then obtain info where r: "reset_index w (transpose_frame w c) = Inr info"
    and ci: "columns info = nm # idx"
    by (simp add: reset_index_def ct nm_def Let_def)
  have "nm = PyStr ''index'' \<or> nm = PyStr ''level_0''" by (simp add: nm_def)
  with c r ci nn di si show ?thesis by blast
qed

text \<open>
  When a station succeeded, the frames have distinct labels and not both of the labels
  \<^verbatim>\<open>index\<close> and \<^verbatim>\<open>level_0\<close>, a run of \<^verbatim>\<open>metadata\<close> ends in one of two ways. When each
  of the six source fields of \<open>conversion\<close> is present in the payload of a station that
  succeeded, a table reaches the database; otherwise \<^verbatim>\<open>info[c]\<close> raises \<^verbatim>\<open>KeyError\<close>
  for the first source field \<open>c\<close> that is absent.
\<close>

lemma metadata_outcome:
  assumes ne: "successful_frames w log \<noteq> []"
    and d: "list_all (\<lambda>d. distinct (columns d)) (successful_frames w log)"
    and nc: "\<not> (PyStr ''index'' \<in> set (present_fields w log) \<and>
                PyStr ''level_0'' \<in> set (present_fields w log))"
  shows "list_all (\<lambda>ck. PyStr (fst ck) \<in> set (present_fields w log)) conversion \<Longrightarrow>
         \<exists>call. snd (metadata w log) = Inr call"
    and "find (\<lambda>ck. PyStr (fst ck) \<notin> set (present_fields w log)) conversion = Some (c, k) \<Longrightarrow>
         snd (metadata w log) = Inl (KeyError c)"
proof -
  from summary_table [OF ne d, of w] nc obtain c0 info nm idx where
    c0: "pd_concat_axis1 w (map (\<lambda>d. Series_obj (first_row w d)) (successful_frames w log)) = Inr c0"
    and r: "reset_index w (transpose_frame w c0) = Inr info"
    and ci: "columns info = nm # idx" and nm: "nm = PyStr ''index'' \<or> nm = PyStr ''level_0''"
    and nn: "nm \<notin> set idx" and di: "distinct idx"
    and si: "set idx = set (present_fields w log)"
    unfolding present_fields_def by blast
  have m: "snd (metadata w log) =
             bind_exn (database_format w info) (\<lambda>DF.
               Inr \<lparr>table = where_notnull w DF, description = ''CDEC metadata'', is_metadata = True\<rparr>)"
    by (simp add: metadata_snd [OF ne] c0 r)
  have dc: "distinct (columns info)" using nn di by (simp add: ci)
  have mem: "PyStr (fst ck) \<in> set (columns info) \<longleftrightarrow> PyStr (fst ck) \<in> set (present_fields w log)"
    if "ck \<in> set conversion" for ck
    using that nm by (auto simp: ci si conversion_def)
  {
    assume "list_all (\<lambda>ck. PyStr (fst ck) \<in> set (present_fields w log)) conversion"
    then have "list_all (\<lambda>ck. length (positions (columns info) (PyStr (fst ck))) = 1) conversion"
      using mem positions_distinct [OF dc] by (auto simp: list_all_iff)
    from database_format_selected [OF this, of w] show "\<exists>call. snd (metadata w log) = Inr call"
      by (simp add: m)
  next
    assume "find (\<lambda>ck. PyStr (fst ck) \<notin> set (present_fields w log)) conversion = Some (c, k)"
    moreover have "find (\<lambda>ck. PyStr (fst ck) \<notin> set (present_fields w log)) conversion =
                   find (\<lambda>ck. PyStr (fst ck) \<notin> set (columns info)) conversion"
      by (rule find_cong) (simp_all add: mem)
    ultimately have "find (\<lambda>ck. PyStr (fst ck) \<notin> set (columns info)) conversion = Some (c, k)"
      by simp
    from database_format_KeyError [OF dc this, of w] show "snd (metadata w log) = Inl (KeyError c)"
      by (simp add: m)
  }
qed


text \<open>
  The rows of the table that reaches the database: one for each station that
  succeeded, in the order of the directory. A value of the field \<^verbatim>\<open>STATION_ID\<close> that
  is not null-like, and that every dtype stores as it is, is the \<^verbatim>\<open>primary_id\<close> of the
  station's row.
\<close>

lemma first_row_get:
  assumes "first_value d k = v" and "notnull v" and "\<And>dt. pd_cast w dt v = v"
  shows "series_get (first_row w d) (PyStr k) = v"
  using assms
  by (auto simp: first_value_def series_get_def first_row_def notnull_def split: option.splits)

lemma table_rows:
  assumes "metadata w log = (log', Inr call)"
  shows "length (index (table call)) = length (successful_frames w log)"
    and "i < length (successful_frames w log) \<Longrightarrow>
         first_value (successful_frames w log ! i) ''STATION_ID'' = v \<Longrightarrow>
         notnull v \<Longrightarrow> (\<And>dt. pd_cast w dt v = v) \<Longrightarrow>
         cell (table call) i 1 = v"
proof -
  from metadata_InrD [OF assms] obtain r df stids info DF where
    n: "net w log directory_request = Inr r"
    and st: "station_table w (resp_text r) = Inr df"
    and g: "getitem df ''STATION_ID'' = Inr stids"
    and m: "multi_station_info w (log @ [directory_request]) (py_iter stids) False = (log', Inr info)"
    and d: "database_format w info = Inr DF"
    and t: "table call = where_notnull w DF"
    by auto
  let ?fs = "successful_frames w log"
  let ?res = "map (\<lambda>d. Series_obj (first_row w d)) ?fs"
  let ?L = "PyStr ''STATION_ID''"
  have ds: "directory_stids w log = py_iter stids"
    by (simp add: directory_stids_def n st g)
  have res: "station_results w (log @ [directory_request]) (py_iter stids) False = ?res"
    using metadata_station_results [of w log] by (simp add: ds)
  from m have "snd (multi_station_info w (log @ [directory_request]) (py_iter stids) False) = Inr info"
    by simp
  then obtain c where c: "pd_concat_axis1 w ?res = Inr c"
    and ri: "reset_index w (transpose_frame w c) = Inr info"
    by (auto simp: multi_station_info_results res split: sum.splits)
  note cc = pd_concat_axis1_InrD [OF c]
  from reset_index_InrD [OF ri] obtain nm where
    ii: "index info = range_index (length (columns c))"
    and nm: "nm = PyStr ''index'' \<or> nm = PyStr ''level_0''"
    and ci: "columns info = nm # index c"
    and ce: "\<And>i j. cell info i (Suc j) = pd_cast w (pd_common w (column_dtypes c)) (cell c j i)"
    by (auto simp: transpose_frame_def)
  have ser: "list_all is_series ?res"
    by (simp add: list_all_iff)
  have len: "length (index info) = length ?fs"
    using cc length_series_names [OF ser, of 0] by (simp add: ii range_index_def)
  from database_format_InrD2 [OF d] have
    DF: "DF = with_reported_and_tags w
                (selected info conversion (grown w empty_frame (index info)))"
    and one: "list_all (\<lambda>ck. length (positions (columns info) (PyStr (fst ck))) = 1) conversion"
    by simp_all
  show "length (index (table call)) = length ?fs"
    by (simp add: t index_where_notnull DF index_with_reported_and_tags index_selected
                  index_grown empty_frame_def len)
  assume i: "i < length ?fs" and v: "first_value (?fs ! i) ''STATION_ID'' = v"
    and nn: "notnull v" and cast: "\<And>dt. pd_cast w dt v = v"
  from one have "length (positions (columns info) ?L) = 1"
    by (simp add: conversion_def)
  with nm obtain q where q: "positions (index c) ?L = [q]"
    by (cases "positions (index c) ?L") (auto simp: ci positions_Cons)
  with nm have hd: "source_position info ''STATION_ID'' = Suc q"
    by (auto simp: ci positions_Cons source_position_def)
  have one_col: "list_all (\<lambda>f. length (columns f) = 1) (map to_frame ?res)"
    by (simp add: list_all_iff)
  have "cell c q i = cell (reindex w (index c) (map to_frame ?res ! i)) q 0"
    using cc cell_concat_foldr [OF one_col, of i w "index c" _ q] i by simp
  also have "\<dots> = v"
    using cell_reindex_series [OF q first_row_get [OF v nn cast] cast] i by simp
  finally have "source_column info ''STATION_ID'' i = v"
    by (simp add: source_column_def hd ce cast)
  with nn primary_id_cell [of info i w] show "cell (table call) i 1 = v"
    by (simp add: t DF)
qed

section \<open>Runs in the worlds with one station\<close>

lemma world_single_simps:
  "net (world_single p) log r =
     (if params r = [] then Inr \<lparr>status_code = 200, resp_text = ''directory''\<rparr>
      else Inr \<lparr>status_code = 200, resp_text = ''station''\<rparr>)"
  "json_loads (world_single p) txt =
     (if txt = ''directory'' then Inr (directory_of [''A'']) else Inr p)"
  "pd_infer (world_single p) = pandas_infer"
  "pd_common (world_single p) = pandas_common"
  "pd_promote (world_single p) = pandas_promote"
  "pd_cast (world_single p) = pandas_cast"
  "pd_where_None (world_single p) = pandas_where_None"
  by (simp_all add: world_single_def pandas_world_simps)

lemma pandas_cast_str: "pandas_cast dt (PyStr s) = PyStr s"
  by (simp add: pandas_cast_def)

lemma directory_stids_single: "directory_stids (world_single p) [] = [PyStr ''A'']"
  by (simp add: directory_stids_def directory_request_def world_single_simps station_table_def
                directory_of_def py_getitem_def DataFrame_def from_records_def Let_def uniq_def
                range_index_def getitem_def positions_Cons positions_Nil raw_column_def
                pandas_cast_str)

lemma station_responses_single:
  "station_responses (world_single p) [] = [Some \<lparr>status_code = 200, resp_text = ''station''\<rparr>]"
  by (simp add: station_responses_def directory_stids_single station_requests_def
                grequests_get_def world_single_simps)

lemma station_table_single:
  "station_table (world_single (payload_of recs)) ''station'' =
     Inr (from_records (world_single (payload_of recs)) recs)"
  by (simp add: station_table_def world_single_simps payload_of_def py_getitem_def DataFrame_def
                list_all_iff comp_def)

lemma index_from_records: "index (from_records w recs) = range_index (length recs)"
  by (simp add: from_records_def Let_def)

lemma columns_from_records:
  "columns (from_records w recs) = map PyStr (uniq (concat (map (map fst) recs)))"
  by (simp add: from_records_def Let_def)

lemma successful_frames_single:
  "successful_frames (world_single (payload_of (r # recs))) [] =
     [from_records (world_single (payload_of (r # recs))) (r # recs)]"
  by (simp add: successful_frames_def station_responses_single succeeded_def station_frame_def
                station_table_single index_from_records range_index_def upt_conv_Cons
           del: upt_Suc)

lemma metadata_single_log:
  "fst (metadata (world_single p) []) = single_log"
  by (simp add: metadata_fst directory_stids_single single_log_def station_requests_def)

text \<open>
  The table that \<^verbatim>\<open>multi_station_info\<close> builds from the first row of one frame, and
  the table that then reaches the database.
\<close>

lemma summary_of_one:
  assumes "PyStr ''index'' \<notin> set (columns d)"
  shows "\<exists>c info.
           pd_concat_axis1 w [Series_obj (first_row w d)] = Inr c \<and>
           reset_index w (transpose_frame w c) = Inr info \<and>
           index info = [PyInt 0] \<and>
           columns info = PyStr ''index'' # columns d \<and>
           (\<forall>j. cell info 0 (Suc j) =
                  pd_cast w (pd_common w [pd_common w (column_dtypes d)])
                    (pd_cast w (pd_common w (column_dtypes d)) (cell d 0 j))) \<and>
           (\<forall>j. dtypes info (Suc j) = pd_common w [pd_common w (column_dtypes d)])"
  using assms
  by (simp add: pd_concat_axis1_def concat_frames_def combined_index_def all_equal_def
                reindex_def hjoin_def transpose_frame_def reset_index_def Let_def first_row_def
                column_dtypes_def range_index_def)

lemma single_station_table:
  assumes sf: "successful_frames w log = [d]" and ni: "PyStr ''index'' \<notin> set (columns d)"
    and one: "list_all (\<lambda>ck. length (positions (columns d) (PyStr (fst ck))) = 1) conversion"
  shows "\<exists>info.
           snd (metadata w log) =
             Inr \<lparr>table = where_notnull w (with_reported_and_tags w
                             (selected info conversion (grown w empty_frame [PyInt 0]))),
                  description = ''CDEC metadata'', is_metadata = True\<rparr> \<and>
           columns info = PyStr ''index'' # columns d \<and>
           (\<forall>j. cell info 0 (Suc j) =
                  pd_cast w (pd_common w [pd_common w (column_dtypes d)])
                    (pd_cast w (pd_common w (column_dtypes d)) (cell d 0 j))) \<and>
           (\<forall>j. dtypes info (Suc j) = pd_common w [pd_common w (column_dtypes d)])"
proof -
  from summary_of_one [OF ni, of w] obtain c info where
    c: "pd_concat_axis1 w [Series_obj (first_row w d)] = Inr c"
    and r: "reset_index w (transpose_frame w c) = Inr info"
    and i: "index info = [PyInt 0]"
    and ci: "columns info = PyStr ''index'' # columns d"
    and ce: "\<forall>j. cell info 0 (Suc j) =
                  pd_cast w (pd_common w [pd_common w (column_dtypes d)])
                    (pd_cast w (pd_common w (column_dtypes d)) (cell d 0 j))"
    and dt: "\<forall>j. dtypes info (Suc j) = pd_common w [pd_common w (column_dtypes d)]"
    by blast
  have "list_all (\<lambda>ck. length (positions (columns info) (PyStr (fst ck))) = 1) conversion"
    using one by (simp add: ci positions_Cons conversion_def)
  from database_format_selected [OF this, of w]
  have "snd (metadata w log) =
          Inr \<lparr>table = where_notnull w (with_reported_and_tags w
                          (selected info conversion (grown w empty_frame [PyInt 0]))),
               description = ''CDEC metadata'', is_metadata = True\<rparr>"
    by (simp add: metadata_snd sf c r i)
  with ci ce dt show ?thesis by blast
qed

text \<open>
  The rows of the tables of the single-station worlds. The cells of a row are computed
  from the positions of the source fields in the station's frame.
\<close>

lemma single_station_cells:
  assumes info: "columns info = PyStr ''index'' # columns d"
    and ce: "\<forall>j. cell info 0 (Suc j) = f j"
    and dt: "\<forall>j. dtypes info (Suc j) = T"
    and cols: "columns d = map PyStr [''STATION_ID'', ''LATITUDE'', ''LONGITUDE'',
                                      ''STATION_NAME'', ''ELEVATION'', ''AGENCY_NAME'']"
    and w: "pd_cast w = pandas_cast" "pd_infer w = pandas_infer"
           "pd_where_None w = pandas_where_None"
  shows "map (cell (where_notnull w (with_reported_and_tags w
                 (selected info conversion (grown w empty_frame [PyInt 0])))) 0) [0..<11] =
           map (\<lambda>v. if notnull v then v else if pandas_where_None T then PyNone else NaN)
               [f 1, f 0, f 2, f 3, f 4, f 5, f 1, f 2] @
           [PyStr ''cdec'', PyStr ''CA'', PyStr ''PDT'']"
proof -
  have p: "source_position info ''LATITUDE'' = 2" "source_position info ''STATION_ID'' = Suc 0"
    "source_position info ''LONGITUDE'' = 3" "source_position info ''STATION_NAME'' = 4"
    "source_position info ''ELEVATION'' = 5" "source_position info ''AGENCY_NAME'' = 6"
    by (simp_all add: source_position_def info cols positions_Cons positions_Nil eval_nat_numeral)
  have c: "cell info 0 2 = f 1" "cell info 0 (Suc 0) = f 0" "cell info 0 3 = f 2"
    "cell info 0 4 = f 3" "cell info 0 5 = f 4" "cell info 0 6 = f 5"
    using ce by (simp_all add: eval_nat_numeral)
  have t: "dtypes info 2 = T" "dtypes info (Suc 0) = T" "dtypes info 3 = T"
    "dtypes info 4 = T" "dtypes info 5 = T" "dtypes info 6 = T"
    using dt by (simp_all add: eval_nat_numeral)
  have o: "pandas_infer [PyStr s] = Object" for s
    by (simp add: pandas_infer_def)
  let ?DF6 = "selected info conversion (grown w empty_frame [PyInt 0])"
  have c6: "columns ?DF6 = map PyStr [''latitude'', ''primary_id'', ''longitude'',
                ''station_name'', ''elevation'', ''primary_provider'']"
    by (rule columns_selected_conversion)
  have v6: "map (cell ?DF6 0) [0, 1, 2, 3, 4, 5] = [f 1, f 0, f 2, f 3, f 4, f 5]"
    by (simp add: selected_def conversion_def set_column_def source_column_def p c
                  columns_grown empty_frame_def)
  have d6: "map (dtypes ?DF6) [0, 1, 2, 3, 4, 5] = [T, T, T, T, T, T]"
    by (simp add: selected_def conversion_def set_column_def source_column_def p t
                  columns_grown empty_frame_def)
  define DF6 where "DF6 = ?DF6"
  note f6 = c6 [folded DF6_def] v6 [folded DF6_def] d6 [folded DF6_def]
  define DF where "DF = with_reported_and_tags w DF6"
  have v: "map (cell DF 0) [0, 1, 2, 3, 4, 5, 6, 7, 8, 9, 10] =
             [f 1, f 0, f 2, f 3, f 4, f 5, f 1, f 2, PyStr ''cdec'', PyStr ''CA'', PyStr ''PDT'']"
    using f6
    by (simp add: DF_def with_reported_and_tags_def setitem_scalar_def set_column_def w o
                  pandas_cast_str)
  have d: "map (dtypes DF) [0, 1, 2, 3, 4, 5, 6, 7, 8, 9, 10] =
             [T, T, T, T, T, T, T, T, Object, Object, Object]"
    using f6
    by (simp add: DF_def with_reported_and_tags_def setitem_scalar_def set_column_def w o)
  have "map (cell (where_notnull w DF) 0) [0, 1, 2, 3, 4, 5, 6, 7, 8, 9, 10] =
           map (\<lambda>v. if notnull v then v else if pandas_where_None T then PyNone else NaN)
               [f 1, f 0, f 2, f 3, f 4, f 5, f 1, f 2] @
           [PyStr ''cdec'', PyStr ''CA'', PyStr ''PDT'']"
    using v d
    by (simp add: where_notnull_def w notnull_def [of "PyStr s" for s] cong: if_cong)
  then show ?thesis
    by (simp only: DF_def DF6_def upt_11)
qed

lemma single_world_table:
  fixes rec :: "(string \<times> pyval) list"
  defines "w \<equiv> world_single (payload_of [rec])"
  defines "d \<equiv> from_records w [rec]"
  assumes cols: "columns d = map PyStr [''STATION_ID'', ''LATITUDE'', ''LONGITUDE'',
                                      ''STATION_NAME'', ''ELEVATION'', ''AGENCY_NAME'']"
    and S: "pandas_common (column_dtypes d) = S"
    and row: "map (\<lambda>j. pandas_cast (pandas_common [S]) (pandas_cast S (cell d 0 j)))
                [0, 1, 2, 3, 4, 5] = [v0, v1, v2, v3, v4, v5]"
  shows "metadata w [] =
           (single_log, Inr \<lparr>table = handed_table w, description = ''CDEC metadata'',
                             is_metadata = True\<rparr>) \<and>
         index (handed_table w) = [PyInt 0] \<and>
         values_tolist (handed_table w) =
           [map (\<lambda>v. if notnull v then v else if pandas_where_None (pandas_common [S]) then PyNone else NaN)
                [v1, v0, v2, v3, v4, v5, v1, v2] @
            [PyStr ''cdec'', PyStr ''CA'', PyStr ''PDT'']]"
proof -
  have ws: "pd_cast w = pandas_cast" "pd_infer w = pandas_infer"
    "pd_where_None w = pandas_where_None" "pd_common w = pandas_common"
    by (simp_all add: w_def world_single_simps)
  have sf: "successful_frames w [] = [d]"
    unfolding w_def d_def by (rule successful_frames_single)
  have ni: "PyStr ''index'' \<notin> set (columns d)"
    by (simp add: cols)
  have one: "list_all (\<lambda>ck. length (positions (columns d) (PyStr (fst ck))) = 1) conversion"
    by (simp add: cols conversion_def positions_Cons positions_Nil)
  define f where "f = (\<lambda>j. pandas_cast (pandas_common [S]) (pandas_cast S (cell d 0 j)))"
  from single_station_table [OF sf ni one] obtain info where
    m: "snd (metadata w []) =
          Inr \<lparr>table = where_notnull w (with_reported_and_tags w
                          (selected info conversion (grown w empty_frame [PyInt 0]))),
               description = ''CDEC metadata'', is_metadata = True\<rparr>"
    and ci: "columns info = PyStr ''index'' # columns d"
    and ce: "\<forall>j. cell info 0 (Suc j) = f j"
    and dt: "\<forall>j. dtypes info (Suc j) = pandas_common [S]"
    unfolding ws S f_def by blast
  define DF where "DF = where_notnull w (with_reported_and_tags w
                          (selected info conversion (grown w empty_frame [PyInt 0])))"
  from m have h: "handed_table w = DF"
    by (simp add: handed_table_def DF_def)
  have "fst (metadata w []) = single_log"
    unfolding w_def by (rule metadata_single_log)
  with m have r: "metadata w [] =
        (single_log, Inr \<lparr>table = DF, description = ''CDEC metadata'', is_metadata = True\<rparr>)"
    by (simp add: prod_eq_iff DF_def)
  have i: "index DF = [PyInt 0]"
    by (simp add: DF_def index_where_notnull index_with_reported_and_tags index_selected
                  index_grown empty_frame_def)
  have l: "length (columns DF) = 11"
    by (simp add: DF_def columns_where_notnull
                  columns_with_reported_and_tags [OF columns_selected_conversion])
  from row have fv: "f 0 = v0" "f 1 = v1" "f 2 = v2" "f 3 = v3" "f 4 = v4" "f 5 = v5"
    by (simp_all add: f_def)
  have c: "map (cell DF 0) [0..<11] =
             map (\<lambda>v. if notnull v then v else if pandas_where_None (pandas_common [S]) then PyNone else NaN)
               [v1, v0, v2, v3, v4, v5, v1, v2] @
             [PyStr ''cdec'', PyStr ''CA'', PyStr ''PDT'']"
    unfolding DF_def
    using single_station_cells [OF ci ce dt cols ws(1,2,3)] by (simp only: fv)
  have v: "values_tolist DF = [map (cell DF 0) [0..<11]]"
    by (simp only: values_tolist_def i l list.size upt_rec [of 0 "Suc 0"] upt_rec [of "Suc 0" "Suc 0"]
           One_nat_def add_0 lessI if_True if_False list.map less_irrefl)
  from r i v c show ?thesis by (simp only: h)
qed

lemma raw_column_one:
  "raw_column [rec] c = [case map_of rec c of None \<Rightarrow> NaN | Some v \<Rightarrow> v]"
  by (simp add: raw_column_def)

lemma from_records_one:
  "columns (from_records w [rec]) = map PyStr (uniq (map fst rec))"
  "dtypes (from_records w [rec]) j =
     pd_infer w [case map_of rec (uniq (map fst rec) ! j) of None \<Rightarrow> NaN | Some v \<Rightarrow> v]"
  "cell (from_records w [rec]) 0 j =
     pd_cast w (pd_infer w [case map_of rec (uniq (map fst rec) ! j) of None \<Rightarrow> NaN | Some v \<Rightarrow> v])
       (case map_of rec (uniq (map fst rec) ! j) of None \<Rightarrow> NaN | Some v \<Rightarrow> v)"
  by (simp_all add: from_records_def Let_def raw_column_one)

lemma upt_6: "[0..<6] = [0, 1, 2, 3, 4, 5::nat]"
  by code_simp

text \<open>
  A \<^verbatim>\<open>float64\<close> column stores small integers exactly and rounds large ones: \<open>2^53 + 1\<close>
  becomes \<open>2^53\<close>.
\<close>

lemma float_of_int_exact: "float_of_int 9 = PyFloat 9 0"
  by code_simp

lemma float_of_int_rounds: "float_of_int (2 ^ 53 + 1) = PyFloat 1 53"
  by code_simp

lemma column_dtypes_6:
  "length (columns d) = 6 \<Longrightarrow> column_dtypes d = map (dtypes d) [0, 1, 2, 3, 4, 5]"
  by (simp add: column_dtypes_def upt_6)

lemma pandas_infer_one:
  "pandas_infer [PyStr s] = Object"
  "pandas_infer [NaN] = Float64"
  "- (2 ^ 63) \<le> n \<Longrightarrow> n < 2 ^ 63 \<Longrightarrow> pandas_infer [PyInt n] = Int64"
  by (simp_all add: pandas_infer_def)

lemma full_record_fields:
  "uniq (map fst (full_record sid)) =
     [''STATION_ID'', ''LATITUDE'', ''LONGITUDE'', ''STATION_NAME'', ''ELEVATION'',
      ''AGENCY_NAME'']"
  by (simp add: full_record_def station_record_def uniq_def)

lemma full_record_frame:
  fixes sid :: string
  defines "d \<equiv> from_records (world_single (payload_of [full_record sid])) [full_record sid]"
  shows "columns d = map PyStr [''STATION_ID'', ''LATITUDE'', ''LONGITUDE'',
                                ''STATION_NAME'', ''ELEVATION'', ''AGENCY_NAME'']"
    and "map (dtypes d) [0, 1, 2, 3, 4, 5] = [Object, Int64, Float64, Object, Int64, Object]"
    and "map (cell d 0) [0, 1, 2, 3, 4, 5] =
           [PyStr sid, PyInt 10, NaN, PyStr ''GAUGE'', PyInt 100, PyStr ''DWR'']"
proof -
  show "columns d = map PyStr [''STATION_ID'', ''LATITUDE'', ''LONGITUDE'',
                                ''STATION_NAME'', ''ELEVATION'', ''AGENCY_NAME'']"
    by (simp add: d_def from_records_one full_record_fields)
  show "map (dtypes d) [0, 1, 2, 3, 4, 5] = [Object, Int64, Float64, Object, Int64, Object]"
    by (simp add: d_def from_records_one full_record_fields world_single_simps)
       (simp add: full_record_def station_record_def pandas_infer_one)
  show "map (cell d 0) [0, 1, 2, 3, 4, 5] =
           [PyStr sid, PyInt 10, NaN, PyStr ''GAUGE'', PyInt 100, PyStr ''DWR'']"
    by (simp add: d_def from_records_one full_record_fields world_single_simps)
       (simp add: full_record_def station_record_def pandas_infer_one pandas_cast_def)
qed

lemma station_world_table:
  "metadata (station_world sid) [] =
     (single_log, Inr \<lparr>table = handed_table (station_world sid),
                         description = ''CDEC metadata'', is_metadata = True\<rparr>) \<and>
   index (handed_table (station_world sid)) = [PyInt 0] \<and>
   values_tolist (handed_table (station_world sid)) =
        [[PyInt 10, PyStr sid, PyNone, PyStr ''GAUGE'', PyInt 100, PyStr ''DWR'',
          PyInt 10, PyNone, PyStr ''cdec'', PyStr ''CA'', PyStr ''PDT'']]"
proof -
  let ?w = "world_single (payload_of [full_record sid])"
  let ?d = "from_records ?w [full_record sid]"
  note d = full_record_frame [of sid]
  have "length (columns ?d) = 6"
    by (simp add: d(1))
  then have S: "pandas_common (column_dtypes ?d) = Object"
    by (simp only: column_dtypes_6 d(2)) (simp add: pandas_common_def)
  have row: "map (\<lambda>j. pandas_cast (pandas_common [Object]) (pandas_cast Object (cell ?d 0 j)))
                [0, 1, 2, 3, 4, 5] =
             [PyStr sid, PyInt 10, NaN, PyStr ''GAUGE'', PyInt 100, PyStr ''DWR'']"
    using d(3) by (simp add: pandas_common_def pandas_cast_def)
  have e: "map (\<lambda>v. if notnull v then v else if pandas_where_None (pandas_common [Object]) then PyNone else NaN)
                [PyInt 10, PyStr sid, NaN, PyStr ''GAUGE'', PyInt 100, PyStr ''DWR'', PyInt 10, NaN] @
            [PyStr ''cdec'', PyStr ''CA'', PyStr ''PDT''] =
           [PyInt 10, PyStr sid, PyNone, PyStr ''GAUGE'', PyInt 100, PyStr ''DWR'',
            PyInt 10, PyNone, PyStr ''cdec'', PyStr ''CA'', PyStr ''PDT'']"
    by (simp add: notnull_def pandas_common_def pandas_where_None_def)
  from single_world_table [OF d(1) S row] show ?thesis
    unfolding e station_world_def .
qed

lemma station_world_columns:
  "columns (handed_table (station_world sid)) =
     map PyStr [''latitude'', ''primary_id'', ''longitude'', ''station_name'', ''elevation'',
                ''primary_provider'', ''reported_lat'', ''reported_long'', ''source'', ''state'',
                ''timezone'']"
  using station_world_table [of sid] metadata_columns [of "station_world sid" "[]"] by simp

lemma station_world_cell:
  "j < 11 \<Longrightarrow> cell (handed_table (station_world sid)) 0 j =
        [PyInt 10, PyStr sid, PyNone, PyStr ''GAUGE'', PyInt 100, PyStr ''DWR'',
          PyInt 10, PyNone, PyStr ''cdec'', PyStr ''CA'', PyStr ''PDT''] ! j"
  using values_tolist_nth [of 0 "handed_table (station_world sid)" j]
        station_world_table [of sid]
  by (simp add: station_world_columns)

lemma column_values_station_world:
  "column_values (handed_table (station_world sid)) ''primary_id'' = [PyStr sid] \<and>
   column_values (handed_table (station_world sid)) ''latitude'' = [PyInt 10] \<and>
   column_values (handed_table (station_world sid)) ''longitude'' = [PyNone]"
  using station_world_table [of sid]
  by (simp add: column_values_def station_world_columns station_world_cell)



section \<open>Runs in the world with four stations\<close>

lemma world_abcd_simps:
  "net world_abcd log r =
     (if params r = [] then Inr \<lparr>status_code = 200, resp_text = ''directory''\<rparr>
      else if params r = [(''stationID'', PyStr ''A'')]
      then Inr \<lparr>status_code = 200, resp_text = ''A''\<rparr>
      else if params r = [(''stationID'', PyStr ''B'')]
      then Inr \<lparr>status_code = 500, resp_text = ''Internal Server Error''\<rparr>
      else if params r = [(''stationID'', PyStr ''C'')]
      then Inr \<lparr>status_code = 200, resp_text = ''<html>''\<rparr>
      else Inr \<lparr>status_code = 200, resp_text = ''D''\<rparr>)"
  "json_loads world_abcd txt =
     (if txt = ''directory'' then Inr (directory_of [''A'', ''B'', ''C'', ''D''])
      else if txt = ''A'' then Inr (payload_of [full_record ''A''])
      else if txt = ''D'' then Inr (payload_of [full_record ''D'' @ [(''COUNTY'', PyStr ''INYO'')]])
      else Inl (JSONDecodeError ''Expecting value''))"
  "pd_infer world_abcd = pandas_infer"
  "pd_cast world_abcd = pandas_cast"
  by (simp_all add: world_abcd_def pandas_world_simps)

lemma directory_stids_abcd:
  "directory_stids world_abcd [] = [PyStr ''A'', PyStr ''B'', PyStr ''C'', PyStr ''D'']"
proof -
  have t: "station_table world_abcd ''directory'' =
             Inr (from_records world_abcd
                    (map (\<lambda>s. [(''STATION_ID'', PyStr s)]) [''A'', ''B'', ''C'', ''D'']))"
    by (simp add: station_table_def world_abcd_simps directory_of_def py_getitem_def DataFrame_def)
  have n: "net world_abcd [] directory_request = Inr \<lparr>status_code = 200, resp_text = ''directory''\<rparr>"
    by (simp add: world_abcd_simps directory_request_def)
  have i: "pandas_infer [PyStr ''A'', PyStr ''B'', PyStr ''C'', PyStr ''D''] = Object"
    by (simp add: pandas_infer_def)
  have u: "[0..<4] = [0, 1, 2, 3::nat]"
    by code_simp
  show ?thesis
    by (simp add: directory_stids_def n t from_records_def Let_def uniq_def range_index_def
                  getitem_def positions_Cons positions_Nil raw_column_def world_abcd_simps(3,4) i
                  pandas_cast_str u)
qed

lemma station_responses_abcd:
  "station_responses world_abcd [] =
     [Some \<lparr>status_code = 200, resp_text = ''A''\<rparr>,
      Some \<lparr>status_code = 500, resp_text = ''Internal Server Error''\<rparr>,
      Some \<lparr>status_code = 200, resp_text = ''<html>''\<rparr>,
      Some \<lparr>status_code = 200, resp_text = ''D''\<rparr>]"
  by (simp add: station_responses_def directory_stids_abcd station_requests_def grequests_get_def
                world_abcd_simps)

lemma station_table_abcd:
  "station_table world_abcd ''A'' = Inr (from_records world_abcd [full_record ''A''])"
  "station_table world_abcd ''D'' =
     Inr (from_records world_abcd [full_record ''D'' @ [(''COUNTY'', PyStr ''INYO'')]])"
  "station_table world_abcd ''<html>'' = Inl (JSONDecodeError ''Expecting value'')"
  by (simp_all add: station_table_def world_abcd_simps payload_of_def py_getitem_def DataFrame_def)

lemma succeeded_abcd:
  "map (succeeded world_abcd) (station_responses world_abcd []) = [True, False, False, True]"
  by (simp add: station_responses_abcd succeeded_def station_table_abcd index_from_records
                range_index_def)

lemma successful_frames_abcd:
  "successful_frames world_abcd [] =
     [from_records world_abcd [full_record ''A''],
      from_records world_abcd [full_record ''D'' @ [(''COUNTY'', PyStr ''INYO'')]]]"
  by (simp add: successful_frames_def station_responses_abcd succeeded_def station_frame_def
                station_table_abcd index_from_records range_index_def)

lemma columns_abcd:
  "columns (from_records world_abcd [full_record ''A'']) =
     map PyStr [''STATION_ID'', ''LATITUDE'', ''LONGITUDE'', ''STATION_NAME'', ''ELEVATION'',
                ''AGENCY_NAME'']"
  "columns (from_records world_abcd [full_record ''D'' @ [(''COUNTY'', PyStr ''INYO'')]]) =
     map PyStr [''STATION_ID'', ''LATITUDE'', ''LONGITUDE'', ''STATION_NAME'', ''ELEVATION'',
                ''AGENCY_NAME'', ''COUNTY'']"
  by (simp_all add: from_records_one full_record_def station_record_def uniq_def)

lemma present_fields_abcd:
  "set (present_fields world_abcd []) =
     set (map PyStr [''STATION_ID'', ''LATITUDE'', ''LONGITUDE'', ''STATION_NAME'', ''ELEVATION'',
                     ''AGENCY_NAME'', ''COUNTY''])"
  by (auto simp: present_fields_def successful_frames_abcd columns_abcd)

lemma first_value_abcd:
  "first_value (from_records world_abcd [full_record ''A'']) ''STATION_ID'' = PyStr ''A''"
  "first_value (from_records world_abcd [full_record ''D'' @ [(''COUNTY'', PyStr ''INYO'')]])
     ''STATION_ID'' = PyStr ''D''"
  by (simp_all add: first_value_def columns_abcd)
     (simp_all add: from_records_one full_record_def station_record_def uniq_def
                    world_abcd_simps pandas_cast_str)

lemma abcd_hypotheses:
  "list_ex (succeeded world_abcd) (station_responses world_abcd [])"
  "list_all (\<lambda>d. distinct (columns d)) (successful_frames world_abcd [])"
  "PyStr ''index'' \<notin> set (present_fields world_abcd [])"
  "list_all (\<lambda>ck. PyStr (fst ck) \<in> set (present_fields world_abcd [])) conversion"
proof -
  show "list_ex (succeeded world_abcd) (station_responses world_abcd [])"
    using succeeded_abcd by (auto simp: list_ex_iff)
  show "list_all (\<lambda>d. distinct (columns d)) (successful_frames world_abcd [])"
    by (simp add: successful_frames_abcd columns_abcd)
  show "PyStr ''index'' \<notin> set (present_fields world_abcd [])"
    by (simp add: present_fields_abcd)
  show "list_all (\<lambda>ck. PyStr (fst ck) \<in> set (present_fields world_abcd [])) conversion"
    by (simp add: present_fields_abcd conversion_def)
qed

lemma metadata_abcd:
  "\<exists>call. metadata world_abcd [] = (fst (metadata world_abcd []), Inr call)"
proof -
  have "successful_frames world_abcd [] \<noteq> []"
    by (simp add: successful_frames_abcd)
  from metadata_outcome(1) [OF this abcd_hypotheses(2) _ abcd_hypotheses(4)] abcd_hypotheses(3)
  obtain call where "snd (metadata world_abcd []) = Inr call" by blast
  then have "metadata world_abcd [] = (fst (metadata world_abcd []), Inr call)"
    by (simp add: prod_eq_iff)
  then show ?thesis ..
qed

section \<open>The table handed to the database\<close>




text \<open>
  C7. In the table that \<^verbatim>\<open>metadata\<close> hands over, the column \<^verbatim>\<open>reported_lat\<close> equals
  the column \<^verbatim>\<open>latitude\<close> and the column \<^verbatim>\<open>reported_long\<close> equals the column
  \<^verbatim>\<open>longitude\<close>, row by row; both pairs have one cell per row of the table.
\<close>

theorem reported_equals_mapped:
  assumes "metadata w log = (log', Inr call)"
  shows "column_values (table call) ''reported_lat'' = column_values (table call) ''latitude'' \<and>
         column_values (table call) ''reported_long'' = column_values (table call) ''longitude'' \<and>
         length (column_values (table call) ''latitude'') = length (index (table call)) \<and>
         length (column_values (table call) ''longitude'') = length (index (table call))"
proof -
  from metadata_table [OF assms] obtain DF6 where
    c: "columns DF6 = map PyStr [''latitude'', ''primary_id'', ''longitude'', ''station_name'',
                                  ''elevation'', ''primary_provider'']"
    and t: "table call = where_notnull w (with_reported_and_tags w DF6)"
    by blast
  note cols = columns_with_reported_and_tags [OF c]
  have lat: "cell (with_reported_and_tags w DF6) i 6 = cell (with_reported_and_tags w DF6) i 0" for i
    by (simp add: with_reported_and_tags_def setitem_scalar_def set_column_def c)
  have lon: "cell (with_reported_and_tags w DF6) i 7 = cell (with_reported_and_tags w DF6) i 2" for i
    by (simp add: with_reported_and_tags_def setitem_scalar_def set_column_def c)
  have dlat: "dtypes (with_reported_and_tags w DF6) 6 = dtypes (with_reported_and_tags w DF6) 0"
    by (simp add: with_reported_and_tags_def setitem_scalar_def set_column_def c)
  have dlon: "dtypes (with_reported_and_tags w DF6) 7 = dtypes (with_reported_and_tags w DF6) 2"
    by (simp add: with_reported_and_tags_def setitem_scalar_def set_column_def c)
  have p0: "find_pos (columns (table call)) (PyStr ''latitude'') = Some 0"
    by (simp add: t columns_where_notnull cols)
  have p2: "find_pos (columns (table call)) (PyStr ''longitude'') = Some 2"
    by (simp add: t columns_where_notnull cols eval_nat_numeral)
  have p6: "find_pos (columns (table call)) (PyStr ''reported_lat'') = Some 6"
    by (simp add: t columns_where_notnull cols eval_nat_numeral)
  have p7: "find_pos (columns (table call)) (PyStr ''reported_long'') = Some 7"
    by (simp add: t columns_where_notnull cols eval_nat_numeral)
  have c: "cell (table call) i j =
             (if notnull (cell (with_reported_and_tags w DF6) i j)
              then cell (with_reported_and_tags w DF6) i j
              else if pd_where_None w (dtypes (with_reported_and_tags w DF6) j) then PyNone
              else NaN)" for i j
    by (simp add: t where_notnull_def)
  show ?thesis
    by (simp add: column_values_def p0 p2 p6 p7 c lat lon dlat dlon)
qed

theorem reported_equals_mapped_witness:
  "metadata (station_world ''A'') [] =
     (single_log, Inr \<lparr>table = handed_table (station_world ''A''),
                         description = ''CDEC metadata'', is_metadata = True\<rparr>) \<and>
   column_values (handed_table (station_world ''A'')) ''reported_lat'' = [PyInt 10] \<and>
   column_values (handed_table (station_world ''A'')) ''latitude'' = [PyInt 10] \<and>
   column_values (handed_table (station_world ''A'')) ''reported_long'' = [PyNone] \<and>
   column_values (handed_table (station_world ''A'')) ''longitude'' = [PyNone]"
  using station_world_table [of "''A''"] column_values_station_world [of "''A''"]
        reported_equals_mapped [of "station_world ''A''" "[]" single_log
          "\<lparr>table = handed_table (station_world ''A''),
            description = ''CDEC metadata'', is_metadata = True\<rparr>"]
  by simp


text \<open>
  C6, as the code has it. The table that \<^verbatim>\<open>metadata\<close> hands over has one row for each
  station that succeeded (status 200 and a payload that parsed into a frame with a
  first record), in the order of the directory, and no other row: a station whose
  request failed, whose status was not 200 or whose payload did not parse has no row.
  The second column of the table is \<^verbatim>\<open>primary_id\<close>, and the \<^verbatim>\<open>primary_id\<close> of the row
  of a station is the value that the station's first record has under \<^verbatim>\<open>STATION_ID\<close>,
  provided that the value is not null-like and that every dtype stores it as it is,
  as it does a string. Nothing checks that the identifier is non-empty.
\<close>

theorem one_row_per_successful_station:
  assumes "metadata w log = (log', Inr call)"
  shows "length (index (table call)) = length (filter (succeeded w) (station_responses w log)) \<and>
         columns (table call) ! 1 = PyStr ''primary_id'' \<and>
         (\<forall>i < length (successful_frames w log).
            notnull (first_value (successful_frames w log ! i) ''STATION_ID'') \<and>
            (\<forall>dt. pd_cast w dt (first_value (successful_frames w log ! i) ''STATION_ID'') =
                    first_value (successful_frames w log ! i) ''STATION_ID'') \<longrightarrow>
            cell (table call) i 1 = first_value (successful_frames w log ! i) ''STATION_ID'')"
proof -
  have "length (index (table call)) = length (filter (succeeded w) (station_responses w log))"
    using table_rows(1) [OF assms] by (simp add: successful_frames_def)
  moreover have "columns (table call) ! 1 = PyStr ''primary_id''"
    using metadata_columns [OF assms] by simp
  moreover have "cell (table call) i 1 = first_value (successful_frames w log ! i) ''STATION_ID''"
    if "i < length (successful_frames w log)"
      and "notnull (first_value (successful_frames w log ! i) ''STATION_ID'')"
      and "\<forall>dt. pd_cast w dt (first_value (successful_frames w log ! i) ''STATION_ID'') =
                 first_value (successful_frames w log ! i) ''STATION_ID''" for i
    using table_rows(2) [OF assms that(1) refl that(2)] that(3) by simp
  ultimately show ?thesis by blast
qed

theorem one_row_per_successful_station_witness:
  "station_responses world_abcd [] =
     [Some \<lparr>status_code = 200, resp_text = ''A''\<rparr>,
      Some \<lparr>status_code = 500, resp_text = ''Internal Server Error''\<rparr>,
      Some \<lparr>status_code = 200, resp_text = ''<html>''\<rparr>,
      Some \<lparr>status_code = 200, resp_text = ''D''\<rparr>] \<and>
   map (succeeded world_abcd) (station_responses world_abcd []) = [True, False, False, True] \<and>
   \<not> isl (snd (metadata world_abcd [])) \<and>
   length (index (handed_table world_abcd)) = 2 \<and>
   columns (handed_table world_abcd) ! 1 = PyStr ''primary_id'' \<and>
   cell (handed_table world_abcd) 0 1 = PyStr ''A'' \<and>
   cell (handed_table world_abcd) 1 1 = PyStr ''D''"
proof -
  from metadata_abcd obtain call where
    m: "metadata world_abcd [] = (fst (metadata world_abcd []), Inr call)" ..
  then have h: "handed_table world_abcd = table call"
    by (simp add: handed_table_def prod_eq_iff)
  from m have ok: "\<not> isl (snd (metadata world_abcd []))"
    by (simp add: prod_eq_iff)
  note r = one_row_per_successful_station [OF m]
  have f: "filter (succeeded world_abcd) (station_responses world_abcd []) =
             [Some \<lparr>status_code = 200, resp_text = ''A''\<rparr>, Some \<lparr>status_code = 200, resp_text = ''D''\<rparr>]"
    using succeeded_abcd by (simp add: station_responses_abcd)
  have l: "length (index (handed_table world_abcd)) = 2"
    using r [THEN conjunct1] by (simp only: h f) simp
  have c: "columns (handed_table world_abcd) ! 1 = PyStr ''primary_id''"
    using r [THEN conjunct2, THEN conjunct1] by (simp only: h)
  have n: "notnull (PyStr s)" for s
    by (simp add: notnull_def)
  have a: "cell (handed_table world_abcd) 0 1 = PyStr ''A''"
    using r [THEN conjunct2, THEN conjunct2, rule_format, of 0]
    by (simp add: h successful_frames_abcd first_value_abcd n world_abcd_simps pandas_cast_str)
  have d: "cell (handed_table world_abcd) 1 1 = PyStr ''D''"
    using r [THEN conjunct2, THEN conjunct2, rule_format, of 1]
    by (simp add: h successful_frames_abcd first_value_abcd n world_abcd_simps pandas_cast_str)
  from station_responses_abcd succeeded_abcd ok l c a d show ?thesis by simp
qed

text \<open>
  C6, as stated, fails: the station of \<open>station_world []\<close> reports the empty string as
  its identifier, and the table handed over has one row whose \<^verbatim>\<open>primary_id\<close> is the
  empty string.
\<close>

theorem empty_identifier_counterexample:
  "metadata (station_world []) [] =
     (single_log, Inr \<lparr>table = handed_table (station_world []),
                         description = ''CDEC metadata'', is_metadata = True\<rparr>) \<and>
   index (handed_table (station_world [])) = [PyInt 0] \<and>
   column_values (handed_table (station_world [])) ''primary_id'' = [PyStr []]"
  using station_world_table [of "[]"] column_values_station_world [of "[]"]
  by simp

section \<open>All records of a station\<close>

text \<open>
  C2. The station of \<open>world_two_sensors\<close> answers with two sensor records. With
  \<^verbatim>\<open>fields=True\<close> the table that \<^verbatim>\<open>multi_station_info\<close> returns has one row per field
  and one column per record (\<^verbatim>\<open>index\<close>, \<^verbatim>\<open>0\<close>, \<^verbatim>\<open>1\<close>): the two records are columns, not
  rows. With \<^verbatim>\<open>fields=False\<close> it has the one row of the first record, with the fields
  as columns, and the frame that \<^verbatim>\<open>single_station_info\<close> returns for the same station
  has one row per record.
\<close>

theorem fields_mode_two_records:
  "\<not> isl (snd (multi_station_info world_two_sensors [] [PyStr ''A''] True)) \<and>
   columns (returned_table world_two_sensors True) = [PyStr ''index'', PyInt 0, PyInt 1] \<and>
   values_tolist (returned_table world_two_sensors True) =
     [[PyStr ''STATION_ID'', PyStr ''A'', PyStr ''A''],
      [PyStr ''SENS_NO'', PyInt 1, PyInt 2]] \<and>
   \<not> isl (snd (multi_station_info world_two_sensors [] [PyStr ''A''] False)) \<and>
   columns (returned_table world_two_sensors False) =
     [PyStr ''index'', PyStr ''STATION_ID'', PyStr ''SENS_NO''] \<and>
   values_tolist (returned_table world_two_sensors False) = [[PyInt 0, PyStr ''A'', PyInt 1]] \<and>
   \<not> isl (snd (single_station_info world_two_sensors [] (PyStr ''A''))) \<and>
   columns (projr (snd (single_station_info world_two_sensors [] (PyStr ''A'')))) =
     [PyStr ''STATION_ID'', PyStr ''SENS_NO''] \<and>
   values_tolist (projr (snd (single_station_info world_two_sensors [] (PyStr ''A'')))) =
     [[PyStr ''A'', PyInt 1], [PyStr ''A'', PyInt 2]]"
  by code_simp

end
